theory Spec2Isabelle
  imports Main "HOL-Library.Multiset"
begin

section \<open>Job records and the HTTP boundary\<close>

text \<open>
  The reconciler is the React component \<^verbatim>\<open>ESIReceivableAgent\<close>. Its job-tracking state is
  two arrays of \<^verbatim>\<open>JobInfo\<close> objects; three handlers change them: \<^verbatim>\<open>loadJobs\<close> (on mount),
  the callback of the polling interval, and \<^verbatim>\<open>handleUpload\<close>.

  \<^verbatim>\<open>status: "PENDING" | "PROCESSING" | "COMPLETED" | "FAILED"\<close> is a union of four literals.
  The JSON of a response is read at the declared types; a status outside the four literals
  is outside \<^verbatim>\<open>JobInfo\<close>.
\<close>

datatype status = PENDING | PROCESSING | COMPLETED | FAILED

text \<open>
  \<^verbatim>\<open>result?: any\<close> is a JSON value the component never inspects (it only prints it). Numbers
  are kept as integers here.
\<close>

datatype json =
    JNull
  | JBool bool
  | JNumber int
  | JString string
  | JArray "json list"
  | JObject "(string \<times> json) list"

text \<open>\<^verbatim>\<open>interface JobInfo\<close>; an optional field is an \<open>option\<close>.\<close>

record JobInfo =
  job_id :: string
  filename :: string
  status :: status
  ledger_name :: "string option"
  financial_year :: "string option"
  result :: "json option"
  error :: "string option"
  created_at :: "string option"

text \<open>
  What \<^verbatim>\<open>await fetch(...)\<close> followed by \<^verbatim>\<open>await res.json()\<close> can give: \<^verbatim>\<open>fetch\<close> rejects
  (\<open>NetworkError\<close>), or resolves to a response with its \<^verbatim>\<open>ok\<close> flag and a body that
  \<^verbatim>\<open>res.json()\<close> either rejects (\<open>Unparseable\<close>) or parses to a value of the type the
  code casts it to.
\<close>

datatype 'a body = Unparseable | Parsed 'a

datatype 'a response = NetworkError | Http bool "'a body"

text \<open>
  The JSON objects of the list and upload endpoints: the code reads \<^verbatim>\<open>data.jobs\<close>,
  \<^verbatim>\<open>result.jobs\<close> and \<^verbatim>\<open>errorData.detail\<close>; a field that is missing reads as
  \<^verbatim>\<open>undefined\<close> (\<open>None\<close>).
\<close>

record api_object =
  jobs :: "JobInfo list option"
  detail :: "string option"

text \<open>A selected \<^verbatim>\<open>File\<close>: its name and its size in bytes.\<close>

datatype selected_file = File string nat

text \<open>The \<^verbatim>\<open>FormData\<close> of an upload: the files, and the two optional fields.\<close>

record upload_form =
  form_files :: "selected_file list"
  form_ledger_names :: "string option"
  form_financial_year :: "string option"

text \<open>The requests the three handlers issue, recorded in the order they are sent.\<close>

datatype request =
    GetJob string
  | ListJobs
  | PostUpload upload_form

text \<open>
  During one tick the job endpoint is asked once per active job. \<open>net k jobId\<close> is what comes
  back for the request for \<open>jobId\<close> issued after \<open>k\<close> earlier requests of the same tick: the
  answer may depend on the moment as well as on the id.
\<close>

type_synonym job_net = "nat \<Rightarrow> string \<Rightarrow> JobInfo response"

section \<open>Component state\<close>

datatype tab = UploadTab | HistoryTab

text \<open>
  The \<^verbatim>\<open>useState\<close> cells the three handlers read or write. The cell \<^verbatim>\<open>error\<close> of the
  component is \<open>errorMsg\<close> here (\<open>error\<close> is the field of \<open>JobInfo\<close>).
\<close>

record ui_state =
  activeTab :: tab
  files :: "selected_file list"
  ledgerName :: string
  selectedFY :: string
  isUploading :: bool
  errorMsg :: "string option"
  success :: "string option"
  activeJobs :: "JobInfo list"
  completedJobs :: "JobInfo list"

definition initial_state :: ui_state where
  "initial_state =
     \<lparr>activeTab = UploadTab, files = [], ledgerName = [], selectedFY = [],
      isUploading = False, errorMsg = None, success = None,
      activeJobs = [], completedJobs = []\<rparr>"

section \<open>Polling\<close>

text \<open>
  \<^verbatim>\<open>pollJobStatus\<close>:
  \<^verbatim>\<open>
  try {
      const res = await fetch(`${API_BASE_URL}/api/v1/documents/jobs/${jobId}`);
      if (res.ok) { return await res.json(); }
  } catch (e) { console.error(...); }
  return null;
  \<close>
  \<open>fetch_job\<close> is the \<^verbatim>\<open>fetch\<close> call: it appends the request to the log of requests sent
  and yields the network's answer. \<open>job_of_response\<close> is the rest of the body. The caller
  tests the result with \<^verbatim>\<open>if (updated)\<close>, which holds for every \<^verbatim>\<open>JobInfo\<close> object and
  fails for \<^verbatim>\<open>null\<close>.
\<close>

definition fetch_job :: "job_net \<Rightarrow> request list \<Rightarrow> string \<Rightarrow> JobInfo response \<times> request list" where
  "fetch_job net sent jobId = (net (length sent) jobId, sent @ [GetJob jobId])"

definition job_of_response :: "JobInfo response \<Rightarrow> JobInfo option" where
  "job_of_response res =
     (case res of
        NetworkError \<Rightarrow> None
      | Http ok b \<Rightarrow>
          if ok then (case b of Unparseable \<Rightarrow> None | Parsed j \<Rightarrow> Some j)
          else None)"

definition pollJobStatus :: "job_net \<Rightarrow> request list \<Rightarrow> string \<Rightarrow> JobInfo option \<times> request list" where
  "pollJobStatus net sent jobId =
     (case fetch_job net sent jobId of (res, sent') \<Rightarrow> (job_of_response res, sent'))"

text \<open>
  The body of the interval callback, \<^verbatim>\<open>for (const job of activeJobs) { ... }\<close>, with its
  two arrays \<^verbatim>\<open>updatedJobs\<close> and \<^verbatim>\<open>newlyCompleted\<close> (\<^verbatim>\<open>push\<close> appends) and the log of
  requests sent so far.
\<close>

type_synonym loop_state = "JobInfo list \<times> JobInfo list \<times> request list"

fun poll_loop :: "job_net \<Rightarrow> JobInfo list \<Rightarrow> loop_state \<Rightarrow> loop_state" where
  "poll_loop net [] acc = acc"
| "poll_loop net (job # rest) (updatedJobs, newlyCompleted, sent) =
     (case pollJobStatus net sent (job_id job) of
        (Some updated, sent') \<Rightarrow>
          if status updated = COMPLETED \<or> status updated = FAILED
          then poll_loop net rest (updatedJobs, newlyCompleted @ [updated], sent')
          else poll_loop net rest (updatedJobs @ [updated], newlyCompleted, sent')
      | (None, sent') \<Rightarrow>
          poll_loop net rest (updatedJobs @ [job], newlyCompleted, sent'))"

text \<open>
  The interval callback. It is created by the polling effect and closes over the
  \<^verbatim>\<open>activeJobs\<close> of the render in which the effect ran (\<open>closed\<close>); it loops over that
  array, awaiting each answer, and ends with
  \<^verbatim>\<open>if (newlyCompleted.length > 0) setCompletedJobs(prev => [...newlyCompleted, ...prev]);
  setActiveJobs(updatedJobs);\<close>
  The first call is a functional update: it reads the completed list of the state current
  when the calls are applied (\<open>s\<close>). The second sets the active list outright, whatever it
  is in \<open>s\<close>. The result is the state after the two calls and the requests sent.
\<close>

definition tick_callback :: "job_net \<Rightarrow> JobInfo list \<Rightarrow> ui_state \<Rightarrow> ui_state \<times> request list" where
  "tick_callback net closed s =
     (case poll_loop net closed ([], [], []) of
        (updatedJobs, newlyCompleted, sent) \<Rightarrow>
          (let s1 = (if length newlyCompleted > 0
                     then s\<lparr>completedJobs := newlyCompleted @ completedJobs s\<rparr>
                     else s)
           in (s1\<lparr>activeJobs := updatedJobs\<rparr>, sent)))"

text \<open>
  A tick during which no other handler writes the state: the callback closed over the
  active list of \<open>s\<close> and its calls are applied to \<open>s\<close>.
\<close>

definition pollTick :: "job_net \<Rightarrow> ui_state \<Rightarrow> ui_state \<times> request list" where
  "pollTick net s = tick_callback net (activeJobs s) s"



section \<open>Loading the job list on mount\<close>

text \<open>
  \<^verbatim>\<open>loadJobs\<close>: one request to the list endpoint; on an \<^verbatim>\<open>ok\<close> response
  \<^verbatim>\<open>jobs = data.jobs || []\<close> is split by two filters and both cells are overwritten. Any
  failure leaves the state as it is.
\<close>

definition loadJobs :: "api_object response \<Rightarrow> ui_state \<Rightarrow> ui_state \<times> request list" where
  "loadJobs res s =
     ((case res of
         NetworkError \<Rightarrow> s
       | Http ok b \<Rightarrow>
           if ok then
             (case b of
                Unparseable \<Rightarrow> s
              | Parsed data \<Rightarrow>
                  (let js = (case jobs data of None \<Rightarrow> [] | Some l \<Rightarrow> l);
                       active = filter (\<lambda>j. status j = PENDING \<or> status j = PROCESSING) js;
                       completed = filter (\<lambda>j. status j = COMPLETED \<or> status j = FAILED) js
                   in s\<lparr>activeJobs := active, completedJobs := completed\<rparr>))
           else s),
      [ListJobs])"

section \<open>Uploading\<close>

text \<open>
  \<^verbatim>\<open>String.prototype.trim\<close>, on the ASCII white space characters (space, tab, line feed,
  vertical tab, form feed, carriage return). The other Unicode white space that
  \<^verbatim>\<open>trim\<close> strips is left out; \<open>trim\<close> is used for the \<^verbatim>\<open>ledger_names\<close> field of the form
  only.
\<close>

definition is_space :: "char \<Rightarrow> bool" where
  "is_space c = (c \<in> set [CHR '' '', CHR 0x09, CHR 0x0A, CHR 0x0B, CHR 0x0C, CHR 0x0D])"

definition trim :: "string \<Rightarrow> string" where
  "trim t = rev (dropWhile is_space (rev (dropWhile is_space t)))"

text \<open>
  The decimal numeral of \<^verbatim>\<open>files.length\<close> inside the template string; \<open>digit\<close> is only
  applied to numbers below ten.
\<close>

definition digit :: "nat \<Rightarrow> char" where
  "digit d = ''0123456789'' ! d"

function decimal :: "nat \<Rightarrow> string" where
  "decimal n = (if n < 10 then [digit n] else decimal (n div 10) @ [digit (n mod 10)])"
  by pat_completeness auto
termination
  by (relation "measure (\<lambda>n. n)") auto

declare decimal.simps [simp del]

text \<open>
  \<^verbatim>\<open>handleUpload\<close>. With no file selected it sets the error cell and returns before anything
  else. Otherwise it builds the form, posts it, and:
  \<^item> on an \<^verbatim>\<open>ok\<close> response maps \<^verbatim>\<open>result.jobs\<close> to new records (\<^verbatim>\<open>job_id\<close>, \<^verbatim>\<open>filename\<close>,
    \<^verbatim>\<open>status\<close> from the descriptor, \<^verbatim>\<open>ledger_name: ledgerName\<close>,
    \<^verbatim>\<open>financial_year: selectedFY\<close>), puts them in front of the active jobs, and resets the
    form;
  \<^item> on another response shows \<^verbatim>\<open>errorData.detail || "Failed to upload documents."\<close>
    (\<^verbatim>\<open>||\<close> takes the right-hand side for \<^verbatim>\<open>undefined\<close> and for the empty string);
  \<^item> on any exception inside the \<^verbatim>\<open>try\<close> (a rejected \<^verbatim>\<open>fetch\<close>, a body that does not
    parse, \<^verbatim>\<open>result.jobs\<close> undefined) shows the network error message;
  \<^item> \<^verbatim>\<open>finally\<close> clears \<^verbatim>\<open>isUploading\<close>.
\<close>

definition new_job :: "string \<Rightarrow> string \<Rightarrow> JobInfo \<Rightarrow> JobInfo" where
  "new_job ledger fy j =
     \<lparr>job_id = job_id j, filename = filename j, status = status j,
      ledger_name = Some ledger, financial_year = Some fy,
      result = None, error = None, created_at = None\<rparr>"

definition network_error_message :: string where
  "network_error_message = ''Network error: Could not upload documents.''"

text \<open>
  \<^verbatim>\<open>files.forEach(file => formData.append("files", file));
  if (ledgerName.trim()) formData.append("ledger_names", ledgerName.trim());
  if (selectedFY) formData.append("financial_year", selectedFY);\<close>
\<close>

definition build_form :: "ui_state \<Rightarrow> upload_form" where
  "build_form s =
     \<lparr>form_files = files s,
      form_ledger_names =
        (if trim (ledgerName s) \<noteq> [] then Some (trim (ledgerName s)) else None),
      form_financial_year =
        (if selectedFY s \<noteq> [] then Some (selectedFY s) else None)\<rparr>"

definition handleUpload :: "(upload_form \<Rightarrow> api_object response) \<Rightarrow> ui_state \<Rightarrow> ui_state \<times> request list" where
  "handleUpload net s =
     (if length (files s) = 0
      then (s\<lparr>errorMsg := Some ''Please select at least one file to upload.''\<rparr>, [])
      else
        (let s1 = s\<lparr>isUploading := True, errorMsg := None, success := None\<rparr>;
             formData = build_form s;
             failed = s1\<lparr>errorMsg := Some network_error_message\<rparr>;
             s2 =
               (case net formData of
                  NetworkError \<Rightarrow> failed
                | Http ok b \<Rightarrow>
                    if ok then
                      (case b of
                         Unparseable \<Rightarrow> failed
                       | Parsed uploaded \<Rightarrow>
                           (case jobs uploaded of
                              None \<Rightarrow> failed
                            | Some js \<Rightarrow>
                                s1\<lparr>activeJobs :=
                                      map (new_job (ledgerName s) (selectedFY s)) js @ activeJobs s1,
                                    success :=
                                      Some (''Successfully queued '' @ decimal (length (files s))
                                            @ '' document(s) for AI analysis.''),
                                    files := [],
                                    ledgerName := [],
                                    activeTab := HistoryTab\<rparr>))
                    else
                      (case b of
                         Unparseable \<Rightarrow> failed
                       | Parsed errorData \<Rightarrow>
                           s1\<lparr>errorMsg :=
                                 Some (case detail errorData of
                                         None \<Rightarrow> ''Failed to upload documents.''
                                       | Some d \<Rightarrow>
                                           if d = [] then ''Failed to upload documents.'' else d)\<rparr>))
         in (s2\<lparr>isUploading := False\<rparr>, [PostUpload formData])))"

section \<open>Notions used in the statements\<close>

text \<open>A record is terminal when its status is \<^verbatim>\<open>COMPLETED\<close> or \<^verbatim>\<open>FAILED\<close>.\<close>

definition terminal :: "JobInfo \<Rightarrow> bool" where
  "terminal j = (status j = COMPLETED \<or> status j = FAILED)"

text \<open>
  What \<^verbatim>\<open>pollJobStatus\<close> returns for \<open>job\<close> when its request is sent after \<open>k\<close> earlier
  requests of the tick (lemma \<open>pollJobStatus_answer\<close> below).
\<close>

definition answer :: "job_net \<Rightarrow> nat \<Rightarrow> JobInfo \<Rightarrow> JobInfo option" where
  "answer net k job = job_of_response (net k (job_id job))"

text \<open>The three components of the loop state.\<close>

definition updatedOf :: "loop_state \<Rightarrow> JobInfo list" where
  "updatedOf r = fst r"

definition completedOf :: "loop_state \<Rightarrow> JobInfo list" where
  "completedOf r = fst (snd r)"

definition sentOf :: "loop_state \<Rightarrow> request list" where
  "sentOf r = snd (snd r)"

text \<open>
  What one job, paired with the number of its request, adds to \<^verbatim>\<open>newlyCompleted\<close>
  (\<open>finished\<close>) and to \<^verbatim>\<open>updatedJobs\<close> (\<open>carried\<close>).
\<close>

definition finished :: "job_net \<Rightarrow> nat \<times> JobInfo \<Rightarrow> JobInfo option" where
  "finished net p =
     (case answer net (fst p) (snd p) of
        None \<Rightarrow> None
      | Some u \<Rightarrow> if terminal u then Some u else None)"

definition carried :: "job_net \<Rightarrow> nat \<times> JobInfo \<Rightarrow> JobInfo option" where
  "carried net p =
     (case answer net (fst p) (snd p) of
        None \<Rightarrow> Some (snd p)
      | Some u \<Rightarrow> if terminal u then None else Some u)"

text \<open>
  The job endpoint answers a request for an id with the record of that id: every answer
  that \<^verbatim>\<open>pollJobStatus\<close> passes on for the jobs \<open>js\<close>, polled from request \<open>k\<close> on, bears
  the id that was asked for.
\<close>

definition echoes :: "job_net \<Rightarrow> nat \<Rightarrow> JobInfo list \<Rightarrow> bool" where
  "echoes net k js =
     list_all (\<lambda>p. case answer net (fst p) (snd p) of
                      None \<Rightarrow> True
                    | Some u \<Rightarrow> job_id u = job_id (snd p))
              (List.enumerate k js)"

text \<open>
  The jobs the component knows, by id; and the partition property: every id occurs exactly
  once in the active list followed by the completed list (so in exactly one of them).
\<close>

definition known :: "ui_state \<Rightarrow> string set" where
  "known s = set (map job_id (activeJobs s @ completedJobs s))"

definition partitioned :: "ui_state \<Rightarrow> bool" where
  "partitioned s = distinct (map job_id (activeJobs s @ completedJobs s))"

text \<open>Successive ticks, each with what the network answers during it.\<close>

primrec run_ticks :: "job_net list \<Rightarrow> ui_state \<Rightarrow> ui_state" where
  "run_ticks [] s = s"
| "run_ticks (net # nets) s = run_ticks nets (fst (pollTick net s))"

section \<open>Example data\<close>

text \<open>
  Two active jobs of one upload and an older failed one; the servers of the examples answer
  by job id.
\<close>

definition ex_j0 :: JobInfo where
  "ex_j0 = \<lparr>job_id = ''j0'', filename = ''old.pdf'', status = FAILED,
            ledger_name = None, financial_year = None,
            result = None, error = Some ''unreadable'', created_at = None\<rparr>"

definition ex_j1 :: JobInfo where
  "ex_j1 = \<lparr>job_id = ''j1'', filename = ''a.pdf'', status = PENDING,
            ledger_name = Some ''ACME'', financial_year = Some ''2023-24'',
            result = None, error = None, created_at = None\<rparr>"

definition ex_j2 :: JobInfo where
  "ex_j2 = \<lparr>job_id = ''j2'', filename = ''b.pdf'', status = PROCESSING,
            ledger_name = Some ''ACME'', financial_year = Some ''2023-24'',
            result = None, error = None, created_at = None\<rparr>"

definition ex_j1_done :: JobInfo where
  "ex_j1_done = ex_j1\<lparr>status := COMPLETED, result := Some (JObject [(''amount'', JNumber 100)])\<rparr>"

definition ex_j2_done :: JobInfo where
  "ex_j2_done = ex_j2\<lparr>status := FAILED, error := Some ''no table found''\<rparr>"

definition ex_j1_running :: JobInfo where
  "ex_j1_running = ex_j1\<lparr>status := PROCESSING\<rparr>"

definition ex_state :: ui_state where
  "ex_state = initial_state\<lparr>activeJobs := [ex_j1, ex_j2], completedJobs := [ex_j0]\<rparr>"

definition ex_net :: job_net where
  "ex_net k jobId = (if jobId = ''j1'' then Http True (Parsed ex_j1_done) else NetworkError)"

definition ex_net_running :: job_net where
  "ex_net_running k jobId =
     (if jobId = ''j1'' then Http True (Parsed ex_j1_running) else Http False Unparseable)"

definition ex_net_both :: job_net where
  "ex_net_both k jobId =
     (if jobId = ''j1'' then Http True (Parsed ex_j1_done) else Http True (Parsed ex_j2_done))"

definition ex_net_down :: job_net where
  "ex_net_down k jobId = (if jobId = ''j2'' then Http False Unparseable else Http True (Parsed ex_j1_running))"

text \<open>
  A filled-in form with two files, and upload responses: one whose first descriptor already
  reports \<^verbatim>\<open>COMPLETED\<close>, one rejected with a detail message, one rejected with an empty
  detail, one rejected without detail, and a server that cannot be reached.
\<close>

definition ex_form_state :: ui_state where
  "ex_form_state =
     initial_state\<lparr>files := [File ''a.pdf'' 2048, File ''b.pdf'' 4096],
                   ledgerName := '' ACME '', selectedFY := ''2023-24'',
                   activeJobs := [ex_j2], completedJobs := [ex_j0]\<rparr>"

definition ex_descriptor :: JobInfo where
  "ex_descriptor =
     \<lparr>job_id = ''j7'', filename = ''a.pdf'', status = COMPLETED,
      ledger_name = Some ''from server'', financial_year = None,
      result = None, error = None, created_at = None\<rparr>"

definition ex_descriptor2 :: JobInfo where
  "ex_descriptor2 =
     \<lparr>job_id = ''j8'', filename = ''b.pdf'', status = PENDING,
      ledger_name = None, financial_year = None,
      result = None, error = None, created_at = None\<rparr>"

definition ex_upload_ok :: "upload_form \<Rightarrow> api_object response" where
  "ex_upload_ok form = Http True (Parsed \<lparr>jobs = Some [ex_descriptor, ex_descriptor2], detail = None\<rparr>)"

definition ex_upload_rejected :: "upload_form \<Rightarrow> api_object response" where
  "ex_upload_rejected form = Http False (Parsed \<lparr>jobs = None, detail = Some ''File too large''\<rparr>)"

definition ex_upload_empty_detail :: "upload_form \<Rightarrow> api_object response" where
  "ex_upload_empty_detail form = Http False (Parsed \<lparr>jobs = None, detail = Some []\<rparr>)"

definition ex_upload_no_detail :: "upload_form \<Rightarrow> api_object response" where
  "ex_upload_no_detail form = Http False (Parsed \<lparr>jobs = None, detail = None\<rparr>)"

definition ex_upload_unreachable :: "upload_form \<Rightarrow> api_object response" where
  "ex_upload_unreachable form = NetworkError"

text \<open>The records the upload puts into the active list, and what the server later serves for \<open>j7\<close>.\<close>

definition ex_j7_held :: JobInfo where
  "ex_j7_held =
     \<lparr>job_id = ''j7'', filename = ''a.pdf'', status = COMPLETED,
      ledger_name = Some '' ACME '', financial_year = Some ''2023-24'',
      result = None, error = None, created_at = None\<rparr>"

definition ex_j8_held :: JobInfo where
  "ex_j8_held =
     \<lparr>job_id = ''j8'', filename = ''b.pdf'', status = PENDING,
      ledger_name = Some '' ACME '', financial_year = Some ''2023-24'',
      result = None, error = None, created_at = None\<rparr>"

definition ex_j7_served :: JobInfo where
  "ex_j7_served =
     \<lparr>job_id = ''j7'', filename = ''a.pdf'', status = COMPLETED,
      ledger_name = Some ''ACME'', financial_year = Some ''2023-24'',
      result = Some (JObject [(''amount'', JNumber 100)]), error = None, created_at = None\<rparr>"

definition ex_net_j7 :: job_net where
  "ex_net_j7 k jobId = (if jobId = ''j7'' then Http True (Parsed ex_j7_served) else NetworkError)"

text \<open>
  Further answers for \<open>j1\<close> and \<open>j8\<close>, an upload answered with one pending descriptor,
  and a page with a file selected and no active job.
\<close>

definition ex_j1_pending :: JobInfo where
  "ex_j1_pending = ex_j1\<lparr>created_at := Some ''2024-04-01T10:00:00''\<rparr>"

definition ex_j1_failed :: JobInfo where
  "ex_j1_failed = ex_j1\<lparr>status := FAILED, error := Some ''no table found''\<rparr>"

definition ex_net_pending :: job_net where
  "ex_net_pending k jobId =
     (if jobId = ''j1'' then Http True (Parsed ex_j1_pending) else Http False Unparseable)"

definition ex_net_failed :: job_net where
  "ex_net_failed k jobId =
     (if jobId = ''j1'' then Http True (Parsed ex_j1_failed) else Http False Unparseable)"

definition ex_j8_served :: JobInfo where
  "ex_j8_served =
     \<lparr>job_id = ''j8'', filename = ''b.pdf'', status = PENDING,
      ledger_name = Some ''ACME'', financial_year = Some ''2023-24'',
      result = None, error = None, created_at = Some ''2024-04-01T10:00:00''\<rparr>"

definition ex_net_j8 :: job_net where
  "ex_net_j8 k jobId = (if jobId = ''j8'' then Http True (Parsed ex_j8_served) else NetworkError)"

definition ex_upload_pending :: "upload_form \<Rightarrow> api_object response" where
  "ex_upload_pending form = Http True (Parsed \<lparr>jobs = Some [ex_descriptor2], detail = None\<rparr>)"

definition ex_idle_state :: ui_state where
  "ex_idle_state = initial_state\<lparr>files := [File ''c.pdf'' 512], completedJobs := [ex_j0]\<rparr>"

lemmas ex_defs = ex_j0_def ex_j1_def ex_j2_def ex_j1_done_def ex_j2_done_def ex_j1_running_def
  ex_state_def ex_net_def ex_net_running_def ex_net_both_def ex_net_down_def initial_state_def

lemmas upload_ex_defs = ex_form_state_def ex_descriptor_def ex_descriptor2_def ex_upload_ok_def
  ex_upload_rejected_def ex_upload_empty_detail_def ex_j7_served_def ex_net_j7_def

lemmas eval_defs = answer_def job_of_response_def pollTick_def tick_callback_def pollJobStatus_def
  fetch_job_def
  updatedOf_def completedOf_def sentOf_def terminal_def Let_def

lemmas more_ex_defs = ex_j1_pending_def ex_j1_failed_def ex_net_pending_def ex_net_failed_def
  ex_j8_served_def ex_net_j8_def ex_upload_pending_def ex_idle_state_def ex_j7_held_def ex_j8_held_def

lemmas loop_defs = answer_def job_of_response_def pollJobStatus_def fetch_job_def
  updatedOf_def completedOf_def sentOf_def terminal_def

section \<open>The polling loop\<close>

lemma pollJobStatus_answer:
  "pollJobStatus net sent (job_id job) = (answer net (length sent) job, sent @ [GetJob (job_id job)])"
  by (simp add: pollJobStatus_def fetch_job_def answer_def)

text \<open>One iteration of the loop, in terms of \<open>answer\<close>.\<close>

lemma poll_loop_Cons:
  "poll_loop net (job # rest) (u, n, sent) =
     (case answer net (length sent) job of
        None \<Rightarrow> poll_loop net rest (u @ [job], n, sent @ [GetJob (job_id job)])
      | Some x \<Rightarrow>
          if terminal x then poll_loop net rest (u, n @ [x], sent @ [GetJob (job_id job)])
          else poll_loop net rest (u @ [x], n, sent @ [GetJob (job_id job)]))"
  by (simp add: pollJobStatus_answer terminal_def split: option.splits)

lemma poll_loop_append:
  "poll_loop net (xs @ ys) acc = poll_loop net ys (poll_loop net xs acc)"
proof (induction xs arbitrary: acc)
  case Nil
  show ?case by simp
next
  case (Cons x xs)
  obtain u n sent where acc: "acc = (u, n, sent)" by (cases acc) auto
  show ?case
    unfolding acc append_Cons poll_loop_Cons
    by (simp add: Cons.IH split: option.splits)
qed

text \<open>Every job costs exactly one request, for its own id, in list order.\<close>

lemma poll_loop_sent:
  "sentOf (poll_loop net xs (u, n, sent)) = sent @ map (\<lambda>j. GetJob (job_id j)) xs"
proof (induction xs arbitrary: u n sent)
  case Nil
  show ?case by (simp add: sentOf_def)
next
  case (Cons x xs)
  show ?case
    unfolding poll_loop_Cons
    by (simp add: Cons.IH split: option.splits)
qed

lemma sentOf_length:
  "length (sentOf (poll_loop net xs (u, n, sent))) = length sent + length xs"
  by (simp add: poll_loop_sent)

text \<open>The buckets only grow at the end: the loop can be run from empty buckets.\<close>

lemma poll_loop_acc:
  "poll_loop net xs (u @ u', n @ n', sent) =
     (u @ updatedOf (poll_loop net xs (u', n', sent)),
      n @ completedOf (poll_loop net xs (u', n', sent)),
      sentOf (poll_loop net xs (u', n', sent)))"
proof (induction xs arbitrary: u' n' sent)
  case Nil
  show ?case by (simp add: updatedOf_def completedOf_def sentOf_def)
next
  case (Cons x xs)
  have a: "\<And>y. (u @ u') @ [y] = u @ (u' @ [y])" and b: "\<And>y. (n @ n') @ [y] = n @ (n' @ [y])"
    by simp_all
  show ?case
    unfolding poll_loop_Cons
    by (simp only: a b Cons.IH split: option.splits if_splits) simp
qed

lemma poll_loop_from_empty:
  "poll_loop net xs (u, n, sent) =
     (u @ updatedOf (poll_loop net xs ([], [], sent)),
      n @ completedOf (poll_loop net xs ([], [], sent)),
      sentOf (poll_loop net xs ([], [], sent)))"
  using poll_loop_acc [of net xs u "[]" n "[]" sent] by simp

lemma loop_state_eta: "(updatedOf r, completedOf r, sentOf r) = r"
  by (simp add: updatedOf_def completedOf_def sentOf_def)

text \<open>
  The loop on \<open>pre @ J # post\<close> is the loop on \<open>pre\<close>, the single step for \<open>J\<close>, and the loop
  on \<open>post\<close> continuing the request log.
\<close>

lemma poll_loop_split:
  "poll_loop net (pre @ J # post) ([], [], []) =
     (let r1 = poll_loop net pre ([], [], []);
          r2 = poll_loop net post ([], [], sentOf r1 @ [GetJob (job_id J)])
      in case answer net (length pre) J of
           None \<Rightarrow> (updatedOf r1 @ J # updatedOf r2, completedOf r1 @ completedOf r2, sentOf r2)
         | Some x \<Rightarrow>
             if terminal x
             then (updatedOf r1 @ updatedOf r2, completedOf r1 @ x # completedOf r2, sentOf r2)
             else (updatedOf r1 @ x # updatedOf r2, completedOf r1 @ completedOf r2, sentOf r2))"
proof -
  define r1 where "r1 = poll_loop net pre ([], [], [])"
  define r2 where "r2 = poll_loop net post ([], [], sentOf r1 @ [GetJob (job_id J)])"
  have len: "length (sentOf r1) = length pre"
    unfolding r1_def by (simp add: sentOf_length)
  have r1_eta: "r1 = (updatedOf r1, completedOf r1, sentOf r1)"
    by (simp add: loop_state_eta)
  have step: "poll_loop net (pre @ J # post) ([], [], []) = poll_loop net (J # post) r1"
    unfolding r1_def by (rule poll_loop_append)
  have from_empty: "\<And>u n. poll_loop net post (u, n, sentOf r1 @ [GetJob (job_id J)]) =
      (u @ updatedOf r2, n @ completedOf r2, sentOf r2)"
    unfolding r2_def by (rule poll_loop_from_empty)
  have "poll_loop net (J # post) (updatedOf r1, completedOf r1, sentOf r1) =
     (case answer net (length pre) J of
           None \<Rightarrow> (updatedOf r1 @ J # updatedOf r2, completedOf r1 @ completedOf r2, sentOf r2)
         | Some x \<Rightarrow>
             if terminal x
             then (updatedOf r1 @ updatedOf r2, completedOf r1 @ x # completedOf r2, sentOf r2)
             else (updatedOf r1 @ x # updatedOf r2, completedOf r1 @ completedOf r2, sentOf r2))"
    unfolding poll_loop_Cons len from_empty
    by (simp split: option.splits)
  then show ?thesis
    unfolding step r1_def [symmetric] Let_def r2_def [symmetric]
    using r1_eta by simp
qed

text \<open>An \<^verbatim>\<open>ok\<close> response with a readable body is what \<^verbatim>\<open>pollJobStatus\<close> passes on, and nothing else is.\<close>

lemma answer_ok: "net k (job_id J) = Http True (Parsed u) \<Longrightarrow> answer net k J = Some u"
  by (simp add: answer_def job_of_response_def)


lemma tick_split_terminal:
  assumes "answer net (length pre) J = Some u" and "terminal u"
  shows "poll_loop net (pre @ J # post) ([], [], []) =
     (let r1 = poll_loop net pre ([], [], []);
          r2 = poll_loop net post ([], [], sentOf r1 @ [GetJob (job_id J)])
      in (updatedOf r1 @ updatedOf r2, completedOf r1 @ u # completedOf r2, sentOf r2))"
  unfolding poll_loop_split Let_def using assms by simp

lemma tick_split_nonterminal:
  assumes "answer net (length pre) J = Some u" and "\<not> terminal u"
  shows "poll_loop net (pre @ J # post) ([], [], []) =
     (let r1 = poll_loop net pre ([], [], []);
          r2 = poll_loop net post ([], [], sentOf r1 @ [GetJob (job_id J)])
      in (updatedOf r1 @ u # updatedOf r2, completedOf r1 @ completedOf r2, sentOf r2))"
  unfolding poll_loop_split Let_def using assms by simp

text \<open>The loop reads the network only at the requests it sends.\<close>

lemma poll_loop_cong:
  "(\<And>k. length sent \<le> k \<Longrightarrow> k < length sent + length xs \<Longrightarrow> net' k = net k) \<Longrightarrow>
   poll_loop net' xs (u, n, sent) = poll_loop net xs (u, n, sent)"
proof (induction xs arbitrary: u n sent)
  case Nil
  show ?case by simp
next
  case (Cons x xs)
  have here: "answer net' (length sent) x = answer net (length sent) x"
    using Cons.prems [of "length sent"] by (simp add: answer_def)
  have rest: "\<And>u n. poll_loop net' xs (u, n, sent @ [GetJob (job_id x)])
                    = poll_loop net xs (u, n, sent @ [GetJob (job_id x)])"
    by (rule Cons.IH) (use Cons.prems in simp)
  show ?case
    unfolding poll_loop_Cons here rest ..
qed

text \<open>The two buckets as order-preserving selections from the numbered active jobs.\<close>

lemma map_filter_append: "List.map_filter f (xs @ ys) = List.map_filter f xs @ List.map_filter f ys"
  by (simp add: List.map_filter_def)

lemma map_filter_set: "x \<in> set (List.map_filter f xs) \<Longrightarrow> \<exists>y \<in> set xs. f y = Some x"
  by (auto simp add: List.map_filter_def)

lemma poll_loop_completedOf:
  "completedOf (poll_loop net xs (u, n, sent)) =
     n @ List.map_filter (finished net) (List.enumerate (length sent) xs)"
proof (induction xs arbitrary: u n sent)
  case Nil
  show ?case by (simp add: completedOf_def List.map_filter_simps)
next
  case (Cons x xs)
  show ?case
    unfolding poll_loop_Cons
    by (simp add: Cons.IH List.map_filter_simps finished_def split: option.splits)
qed

lemma poll_loop_updatedOf:
  "updatedOf (poll_loop net xs (u, n, sent)) =
     u @ List.map_filter (carried net) (List.enumerate (length sent) xs)"
proof (induction xs arbitrary: u n sent)
  case Nil
  show ?case by (simp add: updatedOf_def List.map_filter_simps)
next
  case (Cons x xs)
  show ?case
    unfolding poll_loop_Cons
    by (simp add: Cons.IH List.map_filter_simps carried_def split: option.splits)
qed

lemma finished_Some: "answer net k job = Some a \<Longrightarrow> terminal a \<Longrightarrow> finished net (k, job) = Some a"
  by (simp add: finished_def)

lemma finished_terminal: "finished net p = Some x \<Longrightarrow> terminal x"
  by (simp add: finished_def split: option.splits if_splits)

lemma carried_cases: "carried net p = Some x \<Longrightarrow> x = snd p \<or> \<not> terminal x"
  by (auto simp add: carried_def split: option.splits if_splits)

lemma in_set_enumerate_snd: "p \<in> set (List.enumerate k xs) \<Longrightarrow> snd p \<in> set xs"
  by (cases p) (auto simp add: in_set_enumerate_eq)

lemma newly_terminal:
  "list_all terminal (List.map_filter (finished net) ps)"
  unfolding list_all_iff using map_filter_set finished_terminal by fast




section \<open>One tick\<close>

text \<open>What the callback leaves in the two lists, and what it asks for.\<close>

lemma tick_callback_active:
  "activeJobs (fst (tick_callback net closed s)) = updatedOf (poll_loop net closed ([], [], []))"
  by (simp add: tick_callback_def updatedOf_def Let_def split: prod.splits)

lemma tick_callback_completed:
  "completedJobs (fst (tick_callback net closed s)) =
     completedOf (poll_loop net closed ([], [], [])) @ completedJobs s"
  by (simp add: tick_callback_def completedOf_def Let_def split: prod.splits)

lemma tick_callback_sent:
  "snd (tick_callback net closed s) = map (\<lambda>j. GetJob (job_id j)) closed"
  using poll_loop_sent [of net closed "[]" "[]" "[]"]
  by (auto simp add: tick_callback_def sentOf_def Let_def split: prod.splits)

lemma pollTick_active:
  "activeJobs (fst (pollTick net s)) = updatedOf (poll_loop net (activeJobs s) ([], [], []))"
  by (simp add: pollTick_def tick_callback_active)

lemma pollTick_completed:
  "completedJobs (fst (pollTick net s)) =
     completedOf (poll_loop net (activeJobs s) ([], [], [])) @ completedJobs s"
  by (simp add: pollTick_def tick_callback_completed)

lemma pollTick_sent:
  "snd (pollTick net s) = map (\<lambda>j. GetJob (job_id j)) (activeJobs s)"
  by (simp add: pollTick_def tick_callback_sent)

lemma pollTick_extends:
  "\<exists>front. completedJobs (fst (pollTick net s)) = front @ completedJobs s \<and> list_all terminal front"
  unfolding pollTick_completed poll_loop_completedOf
  by (intro exI conjI) (simp, rule newly_terminal)

lemma pollTick_active_nonterminal:
  assumes "list_all (\<lambda>j. \<not> terminal j) (activeJobs s)"
  shows "list_all (\<lambda>j. \<not> terminal j) (activeJobs (fst (pollTick net s)))"
proof -
  have "\<not> terminal x" if "x \<in> set (List.map_filter (carried net) (List.enumerate 0 (activeJobs s)))" for x
  proof -
    from map_filter_set [OF that] obtain p
      where p: "p \<in> set (List.enumerate 0 (activeJobs s))" "carried net p = Some x" by blast
    from in_set_enumerate_snd [OF p(1)] assms have "\<not> terminal (snd p)"
      by (simp add: list_all_iff)
    with carried_cases [OF p(2)] show ?thesis by auto
  qed
  then show ?thesis
    unfolding pollTick_active poll_loop_updatedOf by (simp add: list_all_iff)
qed

lemma pollTick_keeps_failed:
  assumes "J \<in> set (activeJobs s)" and "\<And>k. answer net k J = None"
  shows "J \<in> set (activeJobs (fst (pollTick net s)))"
proof -
  from assms(1) obtain pre post where sp: "activeJobs s = pre @ J # post"
    by (auto simp add: in_set_conv_decomp)
  show ?thesis
    unfolding pollTick_active sp poll_loop_split Let_def
    by (simp add: assms(2) updatedOf_def)
qed



subsection \<open>Job ids across a tick\<close>

lemma echoes_Cons:
  "echoes net k (x # xs) =
     ((case answer net k x of None \<Rightarrow> True | Some u \<Rightarrow> job_id u = job_id x) \<and> echoes net (Suc k) xs)"
  by (simp add: echoes_def split: option.splits)

lemma echoes_at:
  "echoes net k (pre @ J # post) \<Longrightarrow> answer net (k + length pre) J = Some u \<Longrightarrow> job_id u = job_id J"
  by (simp add: echoes_def enumerate_append_eq)

text \<open>With a server that echoes ids, every polled job leaves exactly one record of its id.\<close>

lemma poll_loop_ids:
  "echoes net (length sent) xs \<Longrightarrow>
   mset (map job_id (updatedOf (poll_loop net xs (u, n, sent))))
     + mset (map job_id (completedOf (poll_loop net xs (u, n, sent))))
   = mset (map job_id u) + mset (map job_id n) + mset (map job_id xs)"
proof (induction xs arbitrary: u n sent)
  case Nil
  show ?case by (simp add: updatedOf_def completedOf_def)
next
  case (Cons x xs)
  from Cons.prems have e: "echoes net (length (sent @ [GetJob (job_id x)])) xs"
    by (simp add: echoes_Cons)
  show ?case
  proof (cases "answer net (length sent) x")
    case None
    then show ?thesis
      unfolding poll_loop_Cons using Cons.IH [OF e] by simp
  next
    case (Some a)
    with Cons.prems have id: "job_id a = job_id x"
      by (simp add: echoes_Cons)
    show ?thesis
      unfolding poll_loop_Cons using Cons.IH [OF e] Some id by simp
  qed
qed

lemma pollTick_ids:
  assumes "echoes net 0 (activeJobs s)"
  shows "mset (map job_id (activeJobs (fst (pollTick net s)) @ completedJobs (fst (pollTick net s))))
          = mset (map job_id (activeJobs s @ completedJobs s))"
  using poll_loop_ids [of net "[]" "activeJobs s" "[]" "[]"] assms
  by (simp add: pollTick_active pollTick_completed)

lemma pollTick_partitioned:
  assumes "partitioned s" and "echoes net 0 (activeJobs s)"
  shows "partitioned (fst (pollTick net s))"
  using mset_eq_imp_distinct_iff [OF pollTick_ids [OF assms(2)]] assms(1)
  unfolding partitioned_def by simp

lemma pollTick_known:
  assumes "echoes net 0 (activeJobs s)"
  shows "known (fst (pollTick net s)) = known s"
  using mset_eq_setD [OF pollTick_ids [OF assms]]
  unfolding known_def .

section \<open>Several ticks\<close>

lemma run_ticks_extends:
  "\<exists>front. completedJobs (run_ticks nets s) = front @ completedJobs s \<and> list_all terminal front"
proof (induction nets arbitrary: s)
  case Nil
  show ?case by simp
next
  case (Cons net nets)
  obtain f1 where f1: "completedJobs (fst (pollTick net s)) = f1 @ completedJobs s" "list_all terminal f1"
    using pollTick_extends by blast
  obtain f2 where f2: "completedJobs (run_ticks nets (fst (pollTick net s)))
                        = f2 @ completedJobs (fst (pollTick net s))" "list_all terminal f2"
    using Cons.IH by blast
  have "completedJobs (run_ticks (net # nets) s) = (f2 @ f1) @ completedJobs s \<and> list_all terminal (f2 @ f1)"
    using f1 f2 by simp
  then show ?case by blast
qed

lemma run_ticks_active_nonterminal:
  "list_all (\<lambda>j. \<not> terminal j) (activeJobs s) \<Longrightarrow>
   list_all (\<lambda>j. \<not> terminal j) (activeJobs (run_ticks nets s))"
  by (induction nets arbitrary: s) (simp_all add: pollTick_active_nonterminal)

text \<open>A tick writes no cell but the two job lists.\<close>

lemma pollTick_errorMsg: "errorMsg (fst (pollTick net s)) = errorMsg s"
  by (simp add: pollTick_def tick_callback_def Let_def split: prod.splits)

lemma run_ticks_errorMsg: "errorMsg (run_ticks nets s) = errorMsg s"
  by (induction nets arbitrary: s) (simp_all add: pollTick_errorMsg)

lemma run_ticks_keeps_failed:
  assumes "J \<in> set (activeJobs s)"
      and "\<forall>net \<in> set nets. \<forall>k. net k (job_id J) = NetworkError \<or> (\<exists>b. net k (job_id J) = Http False b)"
  shows "J \<in> set (activeJobs (run_ticks nets s))"
  using assms
proof (induction nets arbitrary: s)
  case Nil
  then show ?case by simp
next
  case (Cons net nets)
  have "\<And>k. answer net k J = None"
  proof -
    fix k
    from Cons.prems(2) have "net k (job_id J) = NetworkError \<or> (\<exists>b. net k (job_id J) = Http False b)"
      by simp
    then show "answer net k J = None"
      unfolding answer_def job_of_response_def by auto
  qed
  with Cons.prems(1) have "J \<in> set (activeJobs (fst (pollTick net s)))"
    by (rule pollTick_keeps_failed)
  moreover from Cons.prems(2)
  have "\<forall>net \<in> set nets. \<forall>k. net k (job_id J) = NetworkError \<or> (\<exists>b. net k (job_id J) = Http False b)"
    by simp
  ultimately show ?case
    using Cons.IH by simp
qed

section \<open>Loading\<close>

lemma loadJobs_ok:
  "fst (loadJobs (Http True (Parsed \<lparr>jobs = Some js, detail = d\<rparr>)) s) =
     s\<lparr>activeJobs := filter (\<lambda>j. status j = PENDING \<or> status j = PROCESSING) js,
       completedJobs := filter (\<lambda>j. status j = COMPLETED \<or> status j = FAILED) js\<rparr>"
  by (simp add: loadJobs_def)

lemma not_active_status:
  "(\<not> (status j = PENDING \<or> status j = PROCESSING)) = (status j = COMPLETED \<or> status j = FAILED)"
  by (cases "status j") simp_all

lemma completed_filter:
  "filter (\<lambda>j. status j = COMPLETED \<or> status j = FAILED) js =
   filter (\<lambda>j. \<not> (status j = PENDING \<or> status j = PROCESSING)) js"
  by (simp only: not_active_status)

lemma filter_split_mset:
  "mset (map f (filter P xs @ filter (\<lambda>x. \<not> P x) xs)) = mset (map f xs)"
  by (induction xs) simp_all

lemma loadJobs_active_nonterminal:
  "list_all (\<lambda>j. \<not> terminal j) (activeJobs (fst (loadJobs res initial_state)))"
proof (cases res)
  case NetworkError
  then show ?thesis by (simp add: loadJobs_def initial_state_def)
next
  case (Http ok b)
  show ?thesis
  proof (cases b)
    case Unparseable
    with Http show ?thesis by (simp add: loadJobs_def initial_state_def)
  next
    case (Parsed data)
    with Http show ?thesis
      by (cases ok) (auto simp add: loadJobs_def initial_state_def terminal_def list_all_iff Let_def)
  qed
qed

section \<open>Uploading: job lists\<close>

lemma handleUpload_unchanged_jobs:
  assumes "files s \<noteq> []"
      and "net (build_form s) = NetworkError \<or> (\<exists>ok. net (build_form s) = Http ok Unparseable)
           \<or> (\<exists>b. net (build_form s) = Http False b)"
  shows "activeJobs (fst (handleUpload net s)) = activeJobs s
         \<and> completedJobs (fst (handleUpload net s)) = completedJobs s"
  using assms
  by (auto simp add: handleUpload_def Let_def split: response.splits body.splits option.splits)

lemma handleUpload_ok_active:
  assumes "files s \<noteq> []" and "up (build_form s) = Http True (Parsed obj)" and "jobs obj = Some js"
  shows "activeJobs (fst (handleUpload up s)) = map (new_job (ledgerName s) (selectedFY s)) js @ activeJobs s"
    and "completedJobs (fst (handleUpload up s)) = completedJobs s"
  using assms by (simp_all add: handleUpload_def Let_def)

lemma handleUpload_active_cases:
  "activeJobs (fst (handleUpload up s)) = activeJobs s
   \<or> (\<exists>obj js. up (build_form s) = Http True (Parsed obj) \<and> jobs obj = Some js
         \<and> activeJobs (fst (handleUpload up s)) = map (new_job (ledgerName s) (selectedFY s)) js @ activeJobs s)"
proof (cases "files s = []")
  case True
  then show ?thesis by (simp add: handleUpload_def)
next
  case False
  show ?thesis
  proof (cases "up (build_form s)")
    case NetworkError
    with False show ?thesis by (simp add: handleUpload_def Let_def)
  next
    case (Http ok b)
    show ?thesis
    proof (cases b)
      case Unparseable
      with Http False show ?thesis by (cases ok) (simp_all add: handleUpload_def Let_def)
    next
      case (Parsed obj)
      show ?thesis
      proof (cases ok)
        case True
        show ?thesis
        proof (cases "jobs obj")
          case None
          with Http Parsed True False show ?thesis by (simp add: handleUpload_def Let_def)
        next
          case (Some js)
          with Http Parsed True False show ?thesis by (simp add: handleUpload_def Let_def)
        qed
      next
        case False
        with Http Parsed \<open>files s \<noteq> []\<close> show ?thesis by (simp add: handleUpload_def Let_def)
      qed
    qed
  qed
qed

lemma new_job_terminal: "terminal (new_job l f d) = terminal d"
  by (simp add: new_job_def terminal_def)

lemma handleUpload_active_nonterminal:
  assumes "list_all (\<lambda>j. \<not> terminal j) (activeJobs s)"
      and "\<forall>obj js. up (build_form s) = Http True (Parsed obj) \<and> jobs obj = Some js
                     \<longrightarrow> list_all (\<lambda>j. \<not> terminal j) js"
  shows "list_all (\<lambda>j. \<not> terminal j) (activeJobs (fst (handleUpload up s)))"
proof -
  from handleUpload_active_cases [of up s] show ?thesis
  proof
    assume "activeJobs (fst (handleUpload up s)) = activeJobs s"
    with assms(1) show ?thesis by simp
  next
    assume "\<exists>obj js. up (build_form s) = Http True (Parsed obj) \<and> jobs obj = Some js
         \<and> activeJobs (fst (handleUpload up s)) = map (new_job (ledgerName s) (selectedFY s)) js @ activeJobs s"
    then obtain obj js where o: "up (build_form s) = Http True (Parsed obj)" "jobs obj = Some js"
      and a: "activeJobs (fst (handleUpload up s)) = map (new_job (ledgerName s) (selectedFY s)) js @ activeJobs s"
      by blast
    from assms(2) o have "list_all (\<lambda>j. \<not> terminal j) js" by blast
    with assms(1) show ?thesis
      unfolding a by (auto simp add: list_all_iff new_job_terminal)
  qed
qed

text \<open>An upload followed by a tick, for the record made from the descriptor \<open>d\<close>.\<close>

lemma upload_then_tick:
  assumes f: "files s \<noteq> []"
      and r: "up (build_form s) = Http True (Parsed obj)"
      and j: "jobs obj = Some (pre @ d # post)"
      and n: "net (length pre) (job_id d) = Http True (Parsed u)"
  shows "(let held = new_job (ledgerName s) (selectedFY s);
              s1 = fst (handleUpload up s);
              r1 = poll_loop net (map held pre) ([], [], []);
              r2 = poll_loop net (map held post @ activeJobs s) ([], [], sentOf r1 @ [GetJob (job_id d)]);
              s2 = fst (pollTick net s1)
          in activeJobs s1 = map held pre @ held d # map held post @ activeJobs s
             \<and> status (held d) = status d
             \<and> snd (pollTick net s1) ! length pre = GetJob (job_id d)
             \<and> (status u = COMPLETED \<or> status u = FAILED \<longrightarrow>
                  activeJobs s2 = updatedOf r1 @ updatedOf r2
                  \<and> completedJobs s2 = completedOf r1 @ u # completedOf r2 @ completedJobs s)
             \<and> (status u = PENDING \<or> status u = PROCESSING \<longrightarrow>
                  activeJobs s2 = updatedOf r1 @ u # updatedOf r2
                  \<and> completedJobs s2 = completedOf r1 @ completedOf r2 @ completedJobs s))"
proof -
  define held where "held = new_job (ledgerName s) (selectedFY s)"
  define s1 where "s1 = fst (handleUpload up s)"
  define r1 where "r1 = poll_loop net (map held pre) ([], [], [])"
  define r2 where "r2 = poll_loop net (map held post @ activeJobs s) ([], [], sentOf r1 @ [GetJob (job_id d)])"
  have id: "job_id (held d) = job_id d" and st: "status (held d) = status d"
    by (simp_all add: held_def new_job_def)
  have a1: "activeJobs s1 = map held pre @ held d # (map held post @ activeJobs s)"
    unfolding s1_def held_def
    using handleUpload_ok_active(1) [where up = up and s = s, OF f r j] by simp
  have c1: "completedJobs s1 = completedJobs s"
    unfolding s1_def using handleUpload_ok_active(2) [where up = up and s = s, OF f r j] .
  have ans: "answer net (length (map held pre)) (held d) = Some u"
    using n by (simp add: answer_def job_of_response_def id)
  have sent: "snd (pollTick net s1) ! length pre = GetJob (job_id d)"
    unfolding pollTick_sent a1 by (simp add: nth_append id)
  have fin: "activeJobs (fst (pollTick net s1)) = updatedOf r1 @ updatedOf r2
             \<and> completedJobs (fst (pollTick net s1)) = completedOf r1 @ u # completedOf r2 @ completedJobs s"
    if "status u = COMPLETED \<or> status u = FAILED"
  proof -
    from that have "terminal u" by (simp add: terminal_def)
    from tick_split_terminal [OF ans this, of "map held post @ activeJobs s"]
    show ?thesis
      unfolding pollTick_active pollTick_completed a1 c1 Let_def id r1_def r2_def
      by (simp add: updatedOf_def completedOf_def)
  qed
  have act: "activeJobs (fst (pollTick net s1)) = updatedOf r1 @ u # updatedOf r2
             \<and> completedJobs (fst (pollTick net s1)) = completedOf r1 @ completedOf r2 @ completedJobs s"
    if "status u = PENDING \<or> status u = PROCESSING"
  proof -
    from that have "\<not> terminal u" by (auto simp add: terminal_def)
    from tick_split_nonterminal [OF ans this, of "map held post @ activeJobs s"]
    show ?thesis
      unfolding pollTick_active pollTick_completed a1 c1 Let_def id r1_def r2_def
      by (simp add: updatedOf_def completedOf_def)
  qed
  show ?thesis
    unfolding Let_def held_def [symmetric] s1_def [symmetric] r1_def [symmetric] r2_def [symmetric]
    using a1 st sent fin act by simp
qed

section \<open>Poll-failure isolation\<close>

text \<open>
  C1. Let \<open>J\<close> be a job of the active list at the start of a tick, after the jobs \<open>pre\<close> and
  before the jobs \<open>post\<close>, and let its status query fail (\<^verbatim>\<open>pollJobStatus\<close> returns
  \<^verbatim>\<open>null\<close>: transport error, non-success response or unreadable body). Then after the tick
  the active list is what the loop alone on \<open>pre\<close> kept, then \<open>J\<close> itself, unchanged, then
  what the loop alone on \<open>post\<close> kept; the completed list gains exactly what those two loops
  found finished. So \<open>J\<close> stays tracked with the record it had, and the outcomes of the
  other jobs are those of their own queries: they are the same under every network that
  differs only in the answer to the request for \<open>J\<close>.
\<close>

theorem poll_failure_isolation:
  assumes "activeJobs s = pre @ J # post"
      and "answer net (length pre) J = None"
  shows "(let r1 = poll_loop net pre ([], [], []);
              r2 = poll_loop net post ([], [], sentOf r1 @ [GetJob (job_id J)]);
              s' = fst (pollTick net s)
          in activeJobs s' = updatedOf r1 @ J # updatedOf r2
             \<and> completedJobs s' = completedOf r1 @ completedOf r2 @ completedJobs s
             \<and> J \<in> set (activeJobs s')
             \<and> (\<forall>net'. (\<forall>k. k \<noteq> length pre \<longrightarrow> net' k = net k) \<longrightarrow>
                   poll_loop net' pre ([], [], []) = r1
                   \<and> poll_loop net' post ([], [], sentOf r1 @ [GetJob (job_id J)]) = r2))"
proof -
  define r1 where "r1 = poll_loop net pre ([], [], [])"
  define r2 where "r2 = poll_loop net post ([], [], sentOf r1 @ [GetJob (job_id J)])"
  have len: "length (sentOf r1) = length pre"
    unfolding r1_def by (simp add: sentOf_length)
  have loop: "poll_loop net (activeJobs s) ([], [], []) =
      (updatedOf r1 @ J # updatedOf r2, completedOf r1 @ completedOf r2, sentOf r2)"
    unfolding assms(1) poll_loop_split Let_def r1_def [symmetric] r2_def [symmetric]
    using assms(2) by simp
  have a: "activeJobs (fst (pollTick net s)) = updatedOf r1 @ J # updatedOf r2"
    unfolding pollTick_active loop by (simp add: updatedOf_def)
  have c: "completedJobs (fst (pollTick net s)) = completedOf r1 @ completedOf r2 @ completedJobs s"
    unfolding pollTick_completed loop by (simp add: completedOf_def)
  have others: "poll_loop net' pre ([], [], []) = r1
                \<and> poll_loop net' post ([], [], sentOf r1 @ [GetJob (job_id J)]) = r2"
    if agree: "\<forall>k. k \<noteq> length pre \<longrightarrow> net' k = net k" for net'
  proof
    show "poll_loop net' pre ([], [], []) = r1"
      unfolding r1_def by (rule poll_loop_cong) (use agree in simp)
    show "poll_loop net' post ([], [], sentOf r1 @ [GetJob (job_id J)]) = r2"
      unfolding r2_def by (rule poll_loop_cong) (use agree len in simp)
  qed
  show ?thesis
    unfolding Let_def r1_def [symmetric] r2_def [symmetric]
    using a c others by simp
qed

text \<open>
  The third scenario of the specification: \<open>j1\<close> is reported completed, the query for \<open>j2\<close>
  fails.
\<close>

theorem poll_failure_isolation_witness:
  "activeJobs ex_state = [ex_j1] @ ex_j2 # []
   \<and> answer ex_net (length [ex_j1]) ex_j2 = None
   \<and> activeJobs (fst (pollTick ex_net ex_state)) = [ex_j2]
   \<and> completedJobs (fst (pollTick ex_net ex_state)) = [ex_j1_done, ex_j0]"
proof -
  have h1: "activeJobs ex_state = [ex_j1] @ ex_j2 # []"
    by (simp add: ex_defs)
  have h2: "answer ex_net (length [ex_j1]) ex_j2 = None"
    by (simp add: ex_defs eval_defs)
  from poll_failure_isolation [OF h1 h2, unfolded Let_def]
  have "activeJobs (fst (pollTick ex_net ex_state))
          = updatedOf (poll_loop ex_net [ex_j1] ([], [], [])) @ ex_j2
            # updatedOf (poll_loop ex_net [] ([], [], sentOf (poll_loop ex_net [ex_j1] ([], [], []))
                                                     @ [GetJob (job_id ex_j2)]))
        \<and> completedJobs (fst (pollTick ex_net ex_state))
          = completedOf (poll_loop ex_net [ex_j1] ([], [], []))
            @ completedOf (poll_loop ex_net [] ([], [], sentOf (poll_loop ex_net [ex_j1] ([], [], []))
                                                       @ [GetJob (job_id ex_j2)]))
            @ completedJobs ex_state"
    by blast
  then have "activeJobs (fst (pollTick ex_net ex_state)) = [ex_j2]
        \<and> completedJobs (fst (pollTick ex_net ex_state)) = [ex_j1_done, ex_j0]"
    by (simp add: ex_defs eval_defs)
  with h1 h2 show ?thesis by blast
qed

section \<open>Outcome of a successful poll\<close>

text \<open>
  C2. Let the status query for the active job \<open>J\<close> (after \<open>pre\<close>, before \<open>post\<close>) succeed: the
  response is \<^verbatim>\<open>ok\<close> and its body is the record \<open>u\<close>. If \<open>u\<close> is \<^verbatim>\<open>COMPLETED\<close> or \<^verbatim>\<open>FAILED\<close>,
  \<open>u\<close> is placed in the tick's newly completed jobs (between those found before and after
  it), which go in front of the completed list, and the slot of \<open>J\<close> is gone from the next
  active list; when the active ids are distinct and the server echoes ids, no record with
  the id of \<open>J\<close> is left in the active list. If \<open>u\<close> is \<^verbatim>\<open>PENDING\<close> or \<^verbatim>\<open>PROCESSING\<close>, \<open>u\<close>
  takes the place of \<open>J\<close> in the next active list and the completed list gains nothing
  from \<open>J\<close>.
\<close>

theorem poll_success_outcome:
  assumes "activeJobs s = pre @ J # post"
      and "net (length pre) (job_id J) = Http True (Parsed u)"
  shows "(let r1 = poll_loop net pre ([], [], []);
              r2 = poll_loop net post ([], [], sentOf r1 @ [GetJob (job_id J)]);
              s' = fst (pollTick net s)
          in (status u = COMPLETED \<or> status u = FAILED \<longrightarrow>
                activeJobs s' = updatedOf r1 @ updatedOf r2
                \<and> completedJobs s' = completedOf r1 @ u # completedOf r2 @ completedJobs s
                \<and> (distinct (map job_id (activeJobs s)) \<and> echoes net 0 (activeJobs s) \<longrightarrow>
                     job_id J \<notin> set (map job_id (activeJobs s'))))
             \<and> (status u = PENDING \<or> status u = PROCESSING \<longrightarrow>
                  activeJobs s' = updatedOf r1 @ u # updatedOf r2
                  \<and> completedJobs s' = completedOf r1 @ completedOf r2 @ completedJobs s))"
proof -
  define r1 where "r1 = poll_loop net pre ([], [], [])"
  define r2 where "r2 = poll_loop net post ([], [], sentOf r1 @ [GetJob (job_id J)])"
  define s' where "s' = fst (pollTick net s)"
  have ans: "answer net (length pre) J = Some u"
    using assms(2) by (rule answer_ok)
  have fin: "activeJobs s' = updatedOf r1 @ updatedOf r2
             \<and> completedJobs s' = completedOf r1 @ u # completedOf r2 @ completedJobs s"
    if "status u = COMPLETED \<or> status u = FAILED"
  proof -
    from that have "terminal u" by (simp add: terminal_def)
    from tick_split_terminal [OF ans this, of post]
    show ?thesis
      unfolding s'_def pollTick_active pollTick_completed assms(1) Let_def r1_def r2_def
      by (simp add: updatedOf_def completedOf_def)
  qed
  have act: "activeJobs s' = updatedOf r1 @ u # updatedOf r2
             \<and> completedJobs s' = completedOf r1 @ completedOf r2 @ completedJobs s"
    if "status u = PENDING \<or> status u = PROCESSING"
  proof -
    from that have "\<not> terminal u" by (auto simp add: terminal_def)
    from tick_split_nonterminal [OF ans this, of post]
    show ?thesis
      unfolding s'_def pollTick_active pollTick_completed assms(1) Let_def r1_def r2_def
      by (simp add: updatedOf_def completedOf_def)
  qed
  have gone: "job_id J \<notin> set (map job_id (activeJobs s'))"
    if t: "status u = COMPLETED \<or> status u = FAILED"
      and d: "distinct (map job_id (activeJobs s))" and e: "echoes net 0 (activeJobs s)"
  proof -
    let ?R = "poll_loop net (activeJobs s) ([], [], [])"
    have "mset (map job_id (updatedOf ?R @ completedOf ?R)) = mset (map job_id (activeJobs s))"
      using poll_loop_ids [of net "[]" "activeJobs s" "[]" "[]"] e by simp
    from mset_eq_imp_distinct_iff [OF this] d
    have "distinct (map job_id (updatedOf ?R @ completedOf ?R))" by simp
    then have disj: "set (map job_id (updatedOf ?R)) \<inter> set (map job_id (completedOf ?R)) = {}"
      by simp
    have "job_id u = job_id J"
      using echoes_at [of net 0 pre J post u] e assms(1) ans by simp
    moreover have "u \<in> set (completedJobs s')"
      using fin [OF t] by simp
    then have "u \<in> set (completedOf ?R) \<or> u \<in> set (completedJobs s)"
      unfolding s'_def pollTick_completed by auto
    moreover have "u \<in> set (completedOf ?R)"
    proof -
      from t have "terminal u" by (simp add: terminal_def)
      from tick_split_terminal [OF ans this, of post] show ?thesis
        unfolding assms(1) Let_def by (simp add: completedOf_def)
    qed
    ultimately have "job_id J \<in> set (map job_id (completedOf ?R))"
      by (metis image_eqI list.set_map)
    with disj show ?thesis
      unfolding s'_def pollTick_active by blast
  qed
  show ?thesis
    unfolding Let_def r1_def [symmetric] r2_def [symmetric] s'_def [symmetric]
    using fin act gone by blast
qed

text \<open>One answer of each status for \<open>j1\<close>; the pending answer differs from the record held.\<close>

theorem poll_success_outcome_witness:
  "activeJobs ex_state = [] @ ex_j1 # [ex_j2]
   \<and> ex_net (length ([] :: JobInfo list)) (job_id ex_j1) = Http True (Parsed ex_j1_done)
   \<and> status ex_j1_done = COMPLETED
   \<and> activeJobs (fst (pollTick ex_net ex_state)) = [ex_j2]
   \<and> completedJobs (fst (pollTick ex_net ex_state)) = [ex_j1_done, ex_j0]
   \<and> job_id ex_j1 \<notin> set (map job_id (activeJobs (fst (pollTick ex_net ex_state))))
   \<and> ex_net_failed (length ([] :: JobInfo list)) (job_id ex_j1) = Http True (Parsed ex_j1_failed)
   \<and> status ex_j1_failed = FAILED
   \<and> activeJobs (fst (pollTick ex_net_failed ex_state)) = [ex_j2]
   \<and> completedJobs (fst (pollTick ex_net_failed ex_state)) = [ex_j1_failed, ex_j0]
   \<and> ex_net_running (length ([] :: JobInfo list)) (job_id ex_j1) = Http True (Parsed ex_j1_running)
   \<and> status ex_j1_running = PROCESSING
   \<and> activeJobs (fst (pollTick ex_net_running ex_state)) = [ex_j1_running, ex_j2]
   \<and> completedJobs (fst (pollTick ex_net_running ex_state)) = [ex_j0]
   \<and> ex_net_pending (length ([] :: JobInfo list)) (job_id ex_j1) = Http True (Parsed ex_j1_pending)
   \<and> status ex_j1_pending = PENDING
   \<and> ex_j1_pending \<noteq> ex_j1
   \<and> activeJobs (fst (pollTick ex_net_pending ex_state)) = [ex_j1_pending, ex_j2]
   \<and> completedJobs (fst (pollTick ex_net_pending ex_state)) = [ex_j0]"
proof -
  have h1: "activeJobs ex_state = [] @ ex_j1 # [ex_j2]"
    by (simp add: ex_defs)
  have h2: "ex_net (length ([] :: JobInfo list)) (job_id ex_j1) = Http True (Parsed ex_j1_done)"
    and h3: "ex_net_failed (length ([] :: JobInfo list)) (job_id ex_j1) = Http True (Parsed ex_j1_failed)"
    and h4: "ex_net_running (length ([] :: JobInfo list)) (job_id ex_j1) = Http True (Parsed ex_j1_running)"
    and h5: "ex_net_pending (length ([] :: JobInfo list)) (job_id ex_j1) = Http True (Parsed ex_j1_pending)"
    by (simp_all add: ex_defs more_ex_defs)
  have t: "status ex_j1_done = COMPLETED" "status ex_j1_failed = FAILED"
    "status ex_j1_running = PROCESSING" "status ex_j1_pending = PENDING" "ex_j1_pending \<noteq> ex_j1"
    by (simp_all add: ex_defs more_ex_defs)
  have d: "distinct (map job_id (activeJobs ex_state))" "echoes ex_net 0 (activeJobs ex_state)"
    by (simp_all add: ex_defs echoes_def answer_def job_of_response_def)
  note completed = poll_success_outcome [where net = ex_net, OF h1 h2, unfolded Let_def]
  note failed = poll_success_outcome [where net = ex_net_failed, OF h1 h3, unfolded Let_def]
  note running = poll_success_outcome [where net = ex_net_running, OF h1 h4, unfolded Let_def]
  note pending = poll_success_outcome [where net = ex_net_pending, OF h1 h5, unfolded Let_def]
  have a: "activeJobs (fst (pollTick ex_net ex_state)) = [ex_j2]
           \<and> completedJobs (fst (pollTick ex_net ex_state)) = [ex_j1_done, ex_j0]"
    using completed t by (simp add: ex_defs eval_defs)
  have b: "job_id ex_j1 \<notin> set (map job_id (activeJobs (fst (pollTick ex_net ex_state))))"
    using completed t d by blast
  have c: "activeJobs (fst (pollTick ex_net_failed ex_state)) = [ex_j2]
           \<and> completedJobs (fst (pollTick ex_net_failed ex_state)) = [ex_j1_failed, ex_j0]"
    using failed t by (simp add: ex_defs more_ex_defs eval_defs)
  have e: "activeJobs (fst (pollTick ex_net_running ex_state)) = [ex_j1_running, ex_j2]
           \<and> completedJobs (fst (pollTick ex_net_running ex_state)) = [ex_j0]"
    using running t by (simp add: ex_defs eval_defs)
  have f: "activeJobs (fst (pollTick ex_net_pending ex_state)) = [ex_j1_pending, ex_j2]
           \<and> completedJobs (fst (pollTick ex_net_pending ex_state)) = [ex_j0]"
    using pending t by (simp add: ex_defs more_ex_defs eval_defs)
  show ?thesis
    using h1 h2 h3 h4 h5 t a b c e f by blast
qed

section \<open>Completion ordering\<close>

text \<open>
  C3. After a tick the completed list is the tick's newly completed records followed by the
  completed list as it was; the newly completed records are the terminal answers, in the
  order in which the active jobs were queried. In particular, when \<open>A\<close> is queried before
  \<open>B\<close> and both answers are terminal, the answer for \<open>A\<close> stands before the answer for \<open>B\<close>
  in the new completed list, both before the old entries.
\<close>

theorem completion_ordering:
  "completedJobs (fst (pollTick net s)) =
      List.map_filter (finished net) (List.enumerate 0 (activeJobs s)) @ completedJobs s
   \<and> (activeJobs s = pre @ A # mid @ B # post
        \<and> answer net (length pre) A = Some a \<and> terminal a
        \<and> answer net (length pre + 1 + length mid) B = Some b \<and> terminal b
      \<longrightarrow> (\<exists>xs ys zs. completedJobs (fst (pollTick net s)) = xs @ a # ys @ b # zs @ completedJobs s))"
proof (intro conjI impI)
  show blk: "completedJobs (fst (pollTick net s)) =
      List.map_filter (finished net) (List.enumerate 0 (activeJobs s)) @ completedJobs s"
    by (simp add: pollTick_completed poll_loop_completedOf)
  assume h: "activeJobs s = pre @ A # mid @ B # post
        \<and> answer net (length pre) A = Some a \<and> terminal a
        \<and> answer net (length pre + 1 + length mid) B = Some b \<and> terminal b"
  let ?f = "List.map_filter (finished net)"
  have fa: "finished net (length pre, A) = Some a"
    using h by (simp add: finished_Some)
  have fb: "finished net (Suc (length pre + length mid), B) = Some b"
    using h by (simp add: finished_Some)
  have "?f (List.enumerate 0 (activeJobs s)) =
          ?f (List.enumerate 0 pre) @ a # ?f (List.enumerate (Suc (length pre)) mid)
          @ b # ?f (List.enumerate (Suc (Suc (length pre + length mid))) post)"
    using h fa fb
    by (simp add: enumerate_append_eq map_filter_append List.map_filter_simps)
  then show "\<exists>xs ys zs. completedJobs (fst (pollTick net s)) = xs @ a # ys @ b # zs @ completedJobs s"
    unfolding blk by auto
qed

theorem completion_ordering_witness:
  "activeJobs ex_state = [] @ ex_j1 # [] @ ex_j2 # []
   \<and> answer ex_net_both (length ([] :: JobInfo list)) ex_j1 = Some ex_j1_done \<and> terminal ex_j1_done
   \<and> answer ex_net_both (length ([] :: JobInfo list) + 1 + length ([] :: JobInfo list)) ex_j2 = Some ex_j2_done
   \<and> terminal ex_j2_done
   \<and> completedJobs (fst (pollTick ex_net_both ex_state)) = [ex_j1_done, ex_j2_done, ex_j0]
   \<and> (\<exists>xs ys zs. completedJobs (fst (pollTick ex_net_both ex_state))
          = xs @ ex_j1_done # ys @ ex_j2_done # zs @ completedJobs ex_state)"
proof -
  have h: "activeJobs ex_state = [] @ ex_j1 # [] @ ex_j2 # []
     \<and> answer ex_net_both (length ([] :: JobInfo list)) ex_j1 = Some ex_j1_done \<and> terminal ex_j1_done
     \<and> answer ex_net_both (length ([] :: JobInfo list) + 1 + length ([] :: JobInfo list)) ex_j2 = Some ex_j2_done
     \<and> terminal ex_j2_done"
    by (simp add: ex_defs eval_defs)
  have c: "completedJobs (fst (pollTick ex_net_both ex_state)) = [ex_j1_done, ex_j2_done, ex_j0]"
    by (simp add: ex_defs eval_defs)
  from completion_ordering [where net = ex_net_both and s = ex_state and pre = "[]" and A = ex_j1 and mid = "[]"
              and B = ex_j2 and post = "[]" and a = ex_j1_done and b = ex_j2_done] h
  have "\<exists>xs ys zs. completedJobs (fst (pollTick ex_net_both ex_state))
          = xs @ ex_j1_done # ys @ ex_j2_done # zs @ completedJobs ex_state"
    by blast
  with h c show ?thesis by blast
qed

section \<open>Partition of the known jobs\<close>

text \<open>
  From an \<^verbatim>\<open>ok\<close> list response whose jobs have distinct ids, \<^verbatim>\<open>loadJobs\<close> puts the
  \<^verbatim>\<open>PENDING\<close> and \<^verbatim>\<open>PROCESSING\<close> jobs into the active list and all others into the completed
  list, and every id of the snapshot occurs in exactly one of the two lists.
\<close>

lemma loadJobs_partition:
  assumes "distinct (map job_id js)"
  shows "activeJobs (fst (loadJobs (Http True (Parsed \<lparr>jobs = Some js, detail = d\<rparr>)) s0))
           = filter (\<lambda>j. status j = PENDING \<or> status j = PROCESSING) js"
    and "completedJobs (fst (loadJobs (Http True (Parsed \<lparr>jobs = Some js, detail = d\<rparr>)) s0))
           = filter (\<lambda>j. \<not> (status j = PENDING \<or> status j = PROCESSING)) js"
    and "partitioned (fst (loadJobs (Http True (Parsed \<lparr>jobs = Some js, detail = d\<rparr>)) s0))"
    and "known (fst (loadJobs (Http True (Parsed \<lparr>jobs = Some js, detail = d\<rparr>)) s0)) = set (map job_id js)"
proof -
  let ?P = "\<lambda>j. status j = PENDING \<or> status j = PROCESSING"
  have m: "mset (map job_id (filter ?P js @ filter (\<lambda>j. \<not> ?P j) js)) = mset (map job_id js)"
    by (rule filter_split_mset)
  have dd: "distinct (map job_id (filter ?P js @ filter (\<lambda>j. \<not> ?P j) js))"
    using mset_eq_imp_distinct_iff [OF m] assms by simp
  have ss: "set (map job_id (filter ?P js @ filter (\<lambda>j. \<not> ?P j) js)) = set (map job_id js)"
    using mset_eq_setD [OF m] .
  show "activeJobs (fst (loadJobs (Http True (Parsed \<lparr>jobs = Some js, detail = d\<rparr>)) s0)) = filter ?P js"
    unfolding loadJobs_ok by simp
  show "completedJobs (fst (loadJobs (Http True (Parsed \<lparr>jobs = Some js, detail = d\<rparr>)) s0))
           = filter (\<lambda>j. \<not> ?P j) js"
    unfolding loadJobs_ok completed_filter by simp
  show "partitioned (fst (loadJobs (Http True (Parsed \<lparr>jobs = Some js, detail = d\<rparr>)) s0))"
    unfolding loadJobs_ok completed_filter partitioned_def using dd by simp
  show "known (fst (loadJobs (Http True (Parsed \<lparr>jobs = Some js, detail = d\<rparr>)) s0)) = set (map job_id js)"
    unfolding loadJobs_ok completed_filter known_def using ss by simp
qed

text \<open>
  C4 does not hold of the callback. It ends with \<^verbatim>\<open>setActiveJobs(updatedJobs)\<close>, computed from
  the active list it closed over, where \<^verbatim>\<open>handleUpload\<close> and the callback's own
  \<^verbatim>\<open>setCompletedJobs\<close> use the functional form \<^verbatim>\<open>prev => ...\<close>. Two runs of the code:
  \<^item> The callback closed over \<open>[j2]\<close>; while it awaits the answer for \<open>j2\<close>, an upload resolves
    and puts \<open>j7\<close> and \<open>j8\<close> in front of the active list. The callback then sets the active
    list to \<open>[j2]\<close>: \<open>j7\<close> and \<open>j8\<close>, known a moment before, are in neither list.
  \<^item> Two callbacks of one interval, both closed over \<open>[j1, j2]\<close>, both told that the two jobs
    are finished: each puts both records in front of the completed list, which then holds
    every one of them twice.
\<close>

theorem stale_callback_breaks_partition:
  "activeJobs ex_form_state = [ex_j2]
   \<and> partitioned ex_form_state
   \<and> activeJobs (fst (handleUpload ex_upload_ok ex_form_state)) = [ex_j7_held, ex_j8_held, ex_j2]
   \<and> partitioned (fst (handleUpload ex_upload_ok ex_form_state))
   \<and> known (fst (handleUpload ex_upload_ok ex_form_state)) = {''j7'', ''j8'', ''j2'', ''j0''}
   \<and> activeJobs (fst (tick_callback ex_net_down [ex_j2] (fst (handleUpload ex_upload_ok ex_form_state))))
        = [ex_j2]
   \<and> completedJobs (fst (tick_callback ex_net_down [ex_j2] (fst (handleUpload ex_upload_ok ex_form_state))))
        = [ex_j0]
   \<and> known (fst (tick_callback ex_net_down [ex_j2] (fst (handleUpload ex_upload_ok ex_form_state))))
        = {''j2'', ''j0''}
   \<and> activeJobs ex_state = [ex_j1, ex_j2]
   \<and> partitioned ex_state
   \<and> completedJobs (fst (tick_callback ex_net_both [ex_j1, ex_j2]
                            (fst (tick_callback ex_net_both [ex_j1, ex_j2] ex_state))))
        = [ex_j1_done, ex_j2_done, ex_j1_done, ex_j2_done, ex_j0]
   \<and> \<not> partitioned (fst (tick_callback ex_net_both [ex_j1, ex_j2]
                              (fst (tick_callback ex_net_both [ex_j1, ex_j2] ex_state))))"
proof -
  let ?up = "fst (handleUpload ex_upload_ok ex_form_state)"
  have a0: "activeJobs ex_form_state = [ex_j2]" and c0: "completedJobs ex_form_state = [ex_j0]"
    by (simp_all add: upload_ex_defs initial_state_def)
  have a1: "activeJobs ?up = [ex_j7_held, ex_j8_held, ex_j2]"
    by (simp add: handleUpload_def Let_def new_job_def upload_ex_defs more_ex_defs initial_state_def)
  have c1: "completedJobs ?up = [ex_j0]"
    by (simp add: handleUpload_def Let_def upload_ex_defs initial_state_def)
  have ids: "map job_id [ex_j7_held, ex_j8_held, ex_j2, ex_j0] = [''j7'', ''j8'', ''j2'', ''j0'']"
    by (simp add: more_ex_defs ex_defs)
  have p0: "partitioned ex_form_state"
    unfolding partitioned_def a0 c0 by (simp add: ex_defs)
  have p1: "partitioned ?up"
    unfolding partitioned_def a1 c1 using ids by simp
  have k1: "known ?up = {''j7'', ''j8'', ''j2'', ''j0''}"
    unfolding known_def a1 c1 using ids by simp
  have l: "poll_loop ex_net_down [ex_j2] ([], [], []) = ([ex_j2], [], [GetJob ''j2''])"
    by (simp add: ex_defs eval_defs)
  have a2: "activeJobs (fst (tick_callback ex_net_down [ex_j2] ?up)) = [ex_j2]"
    unfolding tick_callback_active l by (simp add: updatedOf_def)
  have c2: "completedJobs (fst (tick_callback ex_net_down [ex_j2] ?up)) = [ex_j0]"
    unfolding tick_callback_completed l c1 by (simp add: completedOf_def)
  have k2: "known (fst (tick_callback ex_net_down [ex_j2] ?up)) = {''j2'', ''j0''}"
    unfolding known_def a2 c2 by (simp add: ex_defs)
  have a3: "activeJobs ex_state = [ex_j1, ex_j2]" and c3: "completedJobs ex_state = [ex_j0]"
    by (simp_all add: ex_defs)
  have p3: "partitioned ex_state"
    unfolding partitioned_def a3 c3 by (simp add: ex_defs)
  have l2: "poll_loop ex_net_both [ex_j1, ex_j2] ([], [], [])
              = ([], [ex_j1_done, ex_j2_done], [GetJob ''j1'', GetJob ''j2''])"
    by (simp add: ex_defs eval_defs)
  have c4: "completedJobs (fst (tick_callback ex_net_both [ex_j1, ex_j2]
                            (fst (tick_callback ex_net_both [ex_j1, ex_j2] ex_state))))
        = [ex_j1_done, ex_j2_done, ex_j1_done, ex_j2_done, ex_j0]"
    unfolding tick_callback_completed l2 c3 by (simp add: completedOf_def)
  have p4: "\<not> partitioned (fst (tick_callback ex_net_both [ex_j1, ex_j2]
                              (fst (tick_callback ex_net_both [ex_j1, ex_j2] ex_state))))"
    unfolding partitioned_def tick_callback_active c4 l2 by (simp add: updatedOf_def)
  from a0 p0 a1 p1 k1 a2 c2 k2 a3 p3 c4 p4 show ?thesis by blast
qed

section \<open>Terminal records\<close>

text \<open>
  C5, as stated, fails for a record that an upload response placed in the active list with
  a terminal status: \<^verbatim>\<open>handleUpload\<close> puts every descriptor into the active list, the next
  tick queries it and replaces it by the server's answer. Here the descriptor of \<open>j7\<close> says
  \<^verbatim>\<open>COMPLETED\<close> and carries no result; the tick moves the job to the completed list with the
  served record, whose result differs.
\<close>

theorem terminal_record_in_active_requeried:
  "activeJobs (fst (handleUpload ex_upload_ok ex_form_state)) = [ex_j7_held, ex_j8_held, ex_j2]
   \<and> status ex_j7_held = COMPLETED
   \<and> result ex_j7_held = None
   \<and> activeJobs (fst (pollTick ex_net_j7 (fst (handleUpload ex_upload_ok ex_form_state))))
        = [ex_j8_held, ex_j2]
   \<and> completedJobs (fst (pollTick ex_net_j7 (fst (handleUpload ex_upload_ok ex_form_state))))
        = [ex_j7_served, ex_j0]
   \<and> job_id ex_j7_served = job_id ex_j7_held
   \<and> result ex_j7_served = Some (JObject [(''amount'', JNumber 100)])"
proof -
  have a: "activeJobs (fst (handleUpload ex_upload_ok ex_form_state)) = [ex_j7_held, ex_j8_held, ex_j2]"
    by (simp add: handleUpload_def Let_def new_job_def upload_ex_defs ex_j7_held_def ex_j8_held_def
                  initial_state_def)
  have c: "completedJobs (fst (handleUpload ex_upload_ok ex_form_state)) = [ex_j0]"
    by (simp add: handleUpload_def Let_def upload_ex_defs initial_state_def)
  have l: "poll_loop ex_net_j7 [ex_j7_held, ex_j8_held, ex_j2] ([], [], [])
             = ([ex_j8_held, ex_j2], [ex_j7_served], [GetJob ''j7'', GetJob ''j8'', GetJob ''j2''])"
    by (simp add: upload_ex_defs ex_j7_held_def ex_j8_held_def ex_defs eval_defs)
  show ?thesis
    unfolding pollTick_active pollTick_completed a c l
    by (simp add: updatedOf_def completedOf_def ex_j7_held_def ex_j7_served_def)
qed

text \<open>
  C5, amended. A record in the completed list is never changed by a tick: after any number
  of ticks the completed list is its former self with a block of records in front, all of
  them \<^verbatim>\<open>COMPLETED\<close> or \<^verbatim>\<open>FAILED\<close>. A tick sends exactly one request per record of the active
  list, in list order. After \<^verbatim>\<open>loadJobs\<close> the active list holds no terminal record; ticks
  keep it so, and so does an upload whose response carries only \<^verbatim>\<open>PENDING\<close> or
  \<^verbatim>\<open>PROCESSING\<close> descriptors. A record that an upload response placed in the active list
  keeps the status of its descriptor \<open>d\<close>, whatever that is, and is queried by the next
  tick; when that query succeeds with the record \<open>u\<close>, \<open>u\<close> replaces it: a \<^verbatim>\<open>COMPLETED\<close> or
  \<^verbatim>\<open>FAILED\<close> \<open>u\<close> goes into the block in front of the completed list and the record leaves
  the active list, a \<^verbatim>\<open>PENDING\<close> or \<^verbatim>\<open>PROCESSING\<close> \<open>u\<close> takes its place in the active list.
\<close>

theorem completed_records_frozen:
  "(\<exists>front. completedJobs (run_ticks nets s) = front @ completedJobs s \<and> list_all terminal front)
   \<and> snd (pollTick net s) = map (\<lambda>j. GetJob (job_id j)) (activeJobs s)
   \<and> list_all (\<lambda>j. \<not> terminal j) (activeJobs (fst (loadJobs res initial_state)))
   \<and> (list_all (\<lambda>j. \<not> terminal j) (activeJobs s) \<longrightarrow>
        list_all (\<lambda>j. \<not> terminal j) (activeJobs (run_ticks nets s)))
   \<and> (list_all (\<lambda>j. \<not> terminal j) (activeJobs s)
        \<and> (\<forall>obj js. up (build_form s) = Http True (Parsed obj) \<and> jobs obj = Some js
                     \<longrightarrow> list_all (\<lambda>j. \<not> terminal j) js)
      \<longrightarrow> list_all (\<lambda>j. \<not> terminal j) (activeJobs (fst (handleUpload up s))))
   \<and> (files s \<noteq> [] \<and> up (build_form s) = Http True (Parsed obj)
        \<and> jobs obj = Some (pre @ d # post)
        \<and> net (length pre) (job_id d) = Http True (Parsed u)
      \<longrightarrow> (let held = new_job (ledgerName s) (selectedFY s);
               s1 = fst (handleUpload up s);
               r1 = poll_loop net (map held pre) ([], [], []);
               r2 = poll_loop net (map held post @ activeJobs s)
                      ([], [], sentOf r1 @ [GetJob (job_id d)]);
               s2 = fst (pollTick net s1)
           in activeJobs s1 = map held pre @ held d # map held post @ activeJobs s
              \<and> status (held d) = status d
              \<and> snd (pollTick net s1) ! length pre = GetJob (job_id d)
              \<and> (status u = COMPLETED \<or> status u = FAILED \<longrightarrow>
                   activeJobs s2 = updatedOf r1 @ updatedOf r2
                   \<and> completedJobs s2 = completedOf r1 @ u # completedOf r2 @ completedJobs s)
              \<and> (status u = PENDING \<or> status u = PROCESSING \<longrightarrow>
                   activeJobs s2 = updatedOf r1 @ u # updatedOf r2
                   \<and> completedJobs s2 = completedOf r1 @ completedOf r2 @ completedJobs s)))"
proof (intro conjI impI)
  show "\<exists>front. completedJobs (run_ticks nets s) = front @ completedJobs s \<and> list_all terminal front"
    by (rule run_ticks_extends)
  show "snd (pollTick net s) = map (\<lambda>j. GetJob (job_id j)) (activeJobs s)"
    by (rule pollTick_sent)
  show "list_all (\<lambda>j. \<not> terminal j) (activeJobs (fst (loadJobs res initial_state)))"
    by (rule loadJobs_active_nonterminal)
next
  assume "list_all (\<lambda>j. \<not> terminal j) (activeJobs s)"
  then show "list_all (\<lambda>j. \<not> terminal j) (activeJobs (run_ticks nets s))"
    by (rule run_ticks_active_nonterminal)
next
  assume h: "list_all (\<lambda>j. \<not> terminal j) (activeJobs s)
        \<and> (\<forall>obj js. up (build_form s) = Http True (Parsed obj) \<and> jobs obj = Some js
                     \<longrightarrow> list_all (\<lambda>j. \<not> terminal j) js)"
  show "list_all (\<lambda>j. \<not> terminal j) (activeJobs (fst (handleUpload up s)))"
    by (rule handleUpload_active_nonterminal) (use h in blast)+
next
  assume h: "files s \<noteq> [] \<and> up (build_form s) = Http True (Parsed obj)
        \<and> jobs obj = Some (pre @ d # post)
        \<and> net (length pre) (job_id d) = Http True (Parsed u)"
  then have f: "files s \<noteq> []" and r: "up (build_form s) = Http True (Parsed obj)"
    and j: "jobs obj = Some (pre @ d # post)"
    and n: "net (length pre) (job_id d) = Http True (Parsed u)"
    by simp_all
  show "let held = new_job (ledgerName s) (selectedFY s);
               s1 = fst (handleUpload up s);
               r1 = poll_loop net (map held pre) ([], [], []);
               r2 = poll_loop net (map held post @ activeJobs s)
                      ([], [], sentOf r1 @ [GetJob (job_id d)]);
               s2 = fst (pollTick net s1)
           in activeJobs s1 = map held pre @ held d # map held post @ activeJobs s
              \<and> status (held d) = status d
              \<and> snd (pollTick net s1) ! length pre = GetJob (job_id d)
              \<and> (status u = COMPLETED \<or> status u = FAILED \<longrightarrow>
                   activeJobs s2 = updatedOf r1 @ updatedOf r2
                   \<and> completedJobs s2 = completedOf r1 @ u # completedOf r2 @ completedJobs s)
              \<and> (status u = PENDING \<or> status u = PROCESSING \<longrightarrow>
                   activeJobs s2 = updatedOf r1 @ u # updatedOf r2
                   \<and> completedJobs s2 = completedOf r1 @ completedOf r2 @ completedJobs s)"
    by (rule upload_then_tick [where up = up and net = net, OF f r j n])
qed

theorem completed_records_frozen_witness:
  "list_all (\<lambda>j. \<not> terminal j) (activeJobs ex_state)
   \<and> list_all (\<lambda>j. \<not> terminal j) (activeJobs (run_ticks [ex_net, ex_net_both] ex_state))
   \<and> completedJobs (run_ticks [ex_net, ex_net_both] ex_state) = [ex_j2_done, ex_j1_done] @ completedJobs ex_state
   \<and> snd (pollTick ex_net ex_state) = [GetJob ''j1'', GetJob ''j2'']
   \<and> list_all (\<lambda>j. \<not> terminal j) (activeJobs ex_form_state)
   \<and> ex_upload_pending (build_form ex_form_state)
        = Http True (Parsed \<lparr>jobs = Some [ex_descriptor2], detail = None\<rparr>)
   \<and> list_all (\<lambda>j. \<not> terminal j) [ex_descriptor2]
   \<and> activeJobs (fst (handleUpload ex_upload_pending ex_form_state)) = [ex_j8_held, ex_j2]
   \<and> list_all (\<lambda>j. \<not> terminal j) (activeJobs (fst (handleUpload ex_upload_pending ex_form_state)))
   \<and> files ex_form_state \<noteq> []
   \<and> ex_upload_ok (build_form ex_form_state)
        = Http True (Parsed \<lparr>jobs = Some ([] @ ex_descriptor # [ex_descriptor2]), detail = None\<rparr>)
   \<and> status ex_descriptor = COMPLETED
   \<and> activeJobs (fst (handleUpload ex_upload_ok ex_form_state)) = [ex_j7_held, ex_j8_held, ex_j2]
   \<and> ex_net_j7 (length ([] :: JobInfo list)) (job_id ex_descriptor) = Http True (Parsed ex_j7_served)
   \<and> status ex_j7_served = COMPLETED
   \<and> activeJobs (fst (pollTick ex_net_j7 (fst (handleUpload ex_upload_ok ex_form_state))))
        = [ex_j8_held, ex_j2]
   \<and> completedJobs (fst (pollTick ex_net_j7 (fst (handleUpload ex_upload_ok ex_form_state))))
        = [ex_j7_served, ex_j0]
   \<and> ex_net_j8 (length [ex_descriptor]) (job_id ex_descriptor2) = Http True (Parsed ex_j8_served)
   \<and> status ex_j8_served = PENDING
   \<and> activeJobs (fst (pollTick ex_net_j8 (fst (handleUpload ex_upload_ok ex_form_state))))
        = [ex_j7_held, ex_j8_served, ex_j2]
   \<and> completedJobs (fst (pollTick ex_net_j8 (fst (handleUpload ex_upload_ok ex_form_state))))
        = [ex_j0]"
proof -
  let ?obj = "\<lparr>jobs = Some ([] @ ex_descriptor # [ex_descriptor2]), detail = None\<rparr>"
  have h: "list_all (\<lambda>j. \<not> terminal j) (activeJobs ex_state)"
    by (simp add: ex_defs terminal_def)
  note ticks = completed_records_frozen [where nets = "[ex_net, ex_net_both]" and s = ex_state and net = ex_net]
  from ticks h have 1: "list_all (\<lambda>j. \<not> terminal j) (activeJobs (run_ticks [ex_net, ex_net_both] ex_state))"
    by blast
  from ticks have "snd (pollTick ex_net ex_state) = map (\<lambda>j. GetJob (job_id j)) (activeJobs ex_state)"
    by blast
  then have 2: "snd (pollTick ex_net ex_state) = [GetJob ''j1'', GetJob ''j2'']"
    by (simp add: ex_defs)
  have 3: "completedJobs (run_ticks [ex_net, ex_net_both] ex_state) = [ex_j2_done, ex_j1_done] @ completedJobs ex_state"
    by (simp add: ex_defs eval_defs)
  have fa: "list_all (\<lambda>j. \<not> terminal j) (activeJobs ex_form_state)"
    by (simp add: upload_ex_defs ex_defs terminal_def)
  have pr: "ex_upload_pending (build_form ex_form_state)
        = Http True (Parsed \<lparr>jobs = Some [ex_descriptor2], detail = None\<rparr>)"
    by (simp add: more_ex_defs)
  have pd: "list_all (\<lambda>j. \<not> terminal j) [ex_descriptor2]"
    by (simp add: upload_ex_defs terminal_def)
  have pall: "\<forall>obj js. ex_upload_pending (build_form ex_form_state) = Http True (Parsed obj)
                 \<and> jobs obj = Some js \<longrightarrow> list_all (\<lambda>j. \<not> terminal j) js"
    using pd by (auto simp add: ex_upload_pending_def)
  from completed_records_frozen [where s = ex_form_state and up = ex_upload_pending] fa pall
  have 4: "list_all (\<lambda>j. \<not> terminal j) (activeJobs (fst (handleUpload ex_upload_pending ex_form_state)))"
    by blast
  have 5: "activeJobs (fst (handleUpload ex_upload_pending ex_form_state)) = [ex_j8_held, ex_j2]"
    by (simp add: handleUpload_def Let_def new_job_def upload_ex_defs more_ex_defs initial_state_def)
  have f: "files ex_form_state \<noteq> []"
    by (simp add: upload_ex_defs initial_state_def)
  have r: "ex_upload_ok (build_form ex_form_state) = Http True (Parsed ?obj)"
    by (simp add: upload_ex_defs)
  have j: "jobs ?obj = Some ([] @ ex_descriptor # [ex_descriptor2])"
    by simp
  have j': "jobs ?obj = Some ([ex_descriptor] @ ex_descriptor2 # [])"
    by simp
  have n7: "ex_net_j7 (length ([] :: JobInfo list)) (job_id ex_descriptor) = Http True (Parsed ex_j7_served)"
    and n8: "ex_net_j8 (length [ex_descriptor]) (job_id ex_descriptor2) = Http True (Parsed ex_j8_served)"
    and st: "status ex_descriptor = COMPLETED" "status ex_j7_served = COMPLETED" "status ex_j8_served = PENDING"
    by (simp_all add: upload_ex_defs more_ex_defs)
  have held: "map (new_job (ledgerName ex_form_state) (selectedFY ex_form_state)) [ex_descriptor2] = [ex_j8_held]"
    "new_job (ledgerName ex_form_state) (selectedFY ex_form_state) ex_descriptor = ex_j7_held"
    "map (new_job (ledgerName ex_form_state) (selectedFY ex_form_state)) [ex_descriptor] = [ex_j7_held]"
    "new_job (ledgerName ex_form_state) (selectedFY ex_form_state) ex_descriptor2 = ex_j8_held"
    "activeJobs ex_form_state = [ex_j2]" "completedJobs ex_form_state = [ex_j0]"
    by (simp_all add: new_job_def upload_ex_defs more_ex_defs initial_state_def)
  from completed_records_frozen [where s = ex_form_state and up = ex_upload_ok and obj = ?obj and pre = "[]"
              and d = ex_descriptor and post = "[ex_descriptor2]" and net = ex_net_j7
              and u = ex_j7_served, unfolded Let_def] f r j n7 st
  have "activeJobs (fst (handleUpload ex_upload_ok ex_form_state))
          = map (new_job (ledgerName ex_form_state) (selectedFY ex_form_state)) []
            @ new_job (ledgerName ex_form_state) (selectedFY ex_form_state) ex_descriptor
            # map (new_job (ledgerName ex_form_state) (selectedFY ex_form_state)) [ex_descriptor2]
            @ activeJobs ex_form_state
      \<and> activeJobs (fst (pollTick ex_net_j7 (fst (handleUpload ex_upload_ok ex_form_state))))
          = updatedOf (poll_loop ex_net_j7 (map (new_job (ledgerName ex_form_state) (selectedFY ex_form_state)) []) ([], [], []))
            @ updatedOf (poll_loop ex_net_j7
                 (map (new_job (ledgerName ex_form_state) (selectedFY ex_form_state)) [ex_descriptor2]
                  @ activeJobs ex_form_state)
                 ([], [], sentOf (poll_loop ex_net_j7 (map (new_job (ledgerName ex_form_state) (selectedFY ex_form_state)) []) ([], [], []))
                           @ [GetJob (job_id ex_descriptor)]))
      \<and> completedJobs (fst (pollTick ex_net_j7 (fst (handleUpload ex_upload_ok ex_form_state))))
          = completedOf (poll_loop ex_net_j7 (map (new_job (ledgerName ex_form_state) (selectedFY ex_form_state)) []) ([], [], []))
            @ ex_j7_served
            # completedOf (poll_loop ex_net_j7
                 (map (new_job (ledgerName ex_form_state) (selectedFY ex_form_state)) [ex_descriptor2]
                  @ activeJobs ex_form_state)
                 ([], [], sentOf (poll_loop ex_net_j7 (map (new_job (ledgerName ex_form_state) (selectedFY ex_form_state)) []) ([], [], []))
                           @ [GetJob (job_id ex_descriptor)]))
            @ completedJobs ex_form_state"
    by blast
  then have 6: "activeJobs (fst (handleUpload ex_upload_ok ex_form_state)) = [ex_j7_held, ex_j8_held, ex_j2]
      \<and> activeJobs (fst (pollTick ex_net_j7 (fst (handleUpload ex_upload_ok ex_form_state)))) = [ex_j8_held, ex_j2]
      \<and> completedJobs (fst (pollTick ex_net_j7 (fst (handleUpload ex_upload_ok ex_form_state)))) = [ex_j7_served, ex_j0]"
    unfolding held
    by (simp add: loop_defs ex_net_j7_def ex_net_j8_def ex_j7_held_def ex_j8_held_def ex_j2_def
                  ex_j7_served_def ex_j8_served_def ex_descriptor_def ex_descriptor2_def)
  from completed_records_frozen [where s = ex_form_state and up = ex_upload_ok and obj = ?obj and pre = "[ex_descriptor]"
              and d = ex_descriptor2 and post = "[]" and net = ex_net_j8
              and u = ex_j8_served, unfolded Let_def] f r j' n8 st
  have "activeJobs (fst (pollTick ex_net_j8 (fst (handleUpload ex_upload_ok ex_form_state))))
          = updatedOf (poll_loop ex_net_j8 (map (new_job (ledgerName ex_form_state) (selectedFY ex_form_state)) [ex_descriptor]) ([], [], []))
            @ ex_j8_served
            # updatedOf (poll_loop ex_net_j8
                 (map (new_job (ledgerName ex_form_state) (selectedFY ex_form_state)) []
                  @ activeJobs ex_form_state)
                 ([], [], sentOf (poll_loop ex_net_j8 (map (new_job (ledgerName ex_form_state) (selectedFY ex_form_state)) [ex_descriptor]) ([], [], []))
                           @ [GetJob (job_id ex_descriptor2)]))
      \<and> completedJobs (fst (pollTick ex_net_j8 (fst (handleUpload ex_upload_ok ex_form_state))))
          = completedOf (poll_loop ex_net_j8 (map (new_job (ledgerName ex_form_state) (selectedFY ex_form_state)) [ex_descriptor]) ([], [], []))
            @ completedOf (poll_loop ex_net_j8
                 (map (new_job (ledgerName ex_form_state) (selectedFY ex_form_state)) []
                  @ activeJobs ex_form_state)
                 ([], [], sentOf (poll_loop ex_net_j8 (map (new_job (ledgerName ex_form_state) (selectedFY ex_form_state)) [ex_descriptor]) ([], [], []))
                           @ [GetJob (job_id ex_descriptor2)]))
            @ completedJobs ex_form_state"
    by blast
  then have 7: "activeJobs (fst (pollTick ex_net_j8 (fst (handleUpload ex_upload_ok ex_form_state))))
          = [ex_j7_held, ex_j8_served, ex_j2]
      \<and> completedJobs (fst (pollTick ex_net_j8 (fst (handleUpload ex_upload_ok ex_form_state)))) = [ex_j0]"
    unfolding held
    by (simp add: loop_defs ex_net_j7_def ex_net_j8_def ex_j7_held_def ex_j8_held_def ex_j2_def
                  ex_j7_served_def ex_j8_served_def ex_descriptor_def ex_descriptor2_def)
  from h 1 3 2 fa pr pd 5 4 f r st 6 n7 n8 7 show ?thesis by simp
qed

section \<open>The polling schedule\<close>



section \<open>Upload without files\<close>

text \<open>
  C7. With no file selected, \<^verbatim>\<open>handleUpload\<close> sends no request at all and changes nothing
  but the error cell, which receives the validation message; in particular no job is added
  to the active list.
\<close>

theorem upload_without_files_rejected:
  assumes "files s = []"
  shows "handleUpload net s =
           (s\<lparr>errorMsg := Some ''Please select at least one file to upload.''\<rparr>, [])"
  using assms by (simp add: handleUpload_def)

theorem upload_without_files_rejected_witness:
  "files initial_state = []
   \<and> snd (handleUpload ex_upload_ok initial_state) = []
   \<and> activeJobs (fst (handleUpload ex_upload_ok initial_state)) = []
   \<and> errorMsg (fst (handleUpload ex_upload_ok initial_state))
       = Some ''Please select at least one file to upload.''"
proof -
  have h: "files initial_state = []" by (simp add: initial_state_def)
  show ?thesis
    using h upload_without_files_rejected [OF h, of ex_upload_ok] by (simp add: initial_state_def)
qed

section \<open>Failed uploads\<close>

text \<open>
  C8, as stated, fails for a non-2xx response whose \<^verbatim>\<open>detail\<close> is the empty string: the
  detail is present, and the generic message is shown instead of it.
\<close>

theorem empty_detail_not_surfaced:
  "ex_upload_empty_detail (build_form ex_form_state)
      = Http False (Parsed \<lparr>jobs = None, detail = Some []\<rparr>)
   \<and> errorMsg (fst (handleUpload ex_upload_empty_detail ex_form_state))
      = Some ''Failed to upload documents.''
   \<and> errorMsg (fst (handleUpload ex_upload_empty_detail ex_form_state)) \<noteq> Some []"
  by (simp add: handleUpload_def Let_def upload_ex_defs ex_defs)

text \<open>
  C8, amended. With at least one file selected: a non-2xx response with a readable body
  shows its \<^verbatim>\<open>detail\<close> verbatim when that is present and not empty, and
  \<^verbatim>\<open>"Failed to upload documents."\<close> when it is absent or empty; a rejected \<^verbatim>\<open>fetch\<close> or a
  body that cannot be read shows \<^verbatim>\<open>"Network error: Could not upload documents."\<close>. In all
  these cases the active and completed lists are unchanged.
\<close>

theorem upload_failure_message:
  assumes "files s \<noteq> []"
  shows "(net (build_form s) = Http False (Parsed obj) \<longrightarrow>
            (\<forall>d. detail obj = Some d \<and> d \<noteq> [] \<longrightarrow>
                 errorMsg (fst (handleUpload net s)) = Some d)
            \<and> (detail obj = None \<or> detail obj = Some [] \<longrightarrow>
                 errorMsg (fst (handleUpload net s)) = Some ''Failed to upload documents.'')
            \<and> activeJobs (fst (handleUpload net s)) = activeJobs s
            \<and> completedJobs (fst (handleUpload net s)) = completedJobs s)
         \<and> (net (build_form s) = NetworkError \<or> net (build_form s) = Http ok Unparseable \<longrightarrow>
              errorMsg (fst (handleUpload net s)) = Some ''Network error: Could not upload documents.''
              \<and> activeJobs (fst (handleUpload net s)) = activeJobs s
              \<and> completedJobs (fst (handleUpload net s)) = completedJobs s)"
  using assms
  by (cases ok) (auto simp add: handleUpload_def Let_def network_error_message_def)

theorem upload_failure_message_witness:
  "files ex_form_state \<noteq> []
   \<and> ex_upload_rejected (build_form ex_form_state)
        = Http False (Parsed \<lparr>jobs = None, detail = Some ''File too large''\<rparr>)
   \<and> errorMsg (fst (handleUpload ex_upload_rejected ex_form_state)) = Some ''File too large''
   \<and> activeJobs (fst (handleUpload ex_upload_rejected ex_form_state)) = [ex_j2]
   \<and> ex_upload_no_detail (build_form ex_form_state)
        = Http False (Parsed \<lparr>jobs = None, detail = None\<rparr>)
   \<and> errorMsg (fst (handleUpload ex_upload_no_detail ex_form_state))
        = Some ''Failed to upload documents.''
   \<and> ex_upload_unreachable (build_form ex_form_state) = NetworkError
   \<and> errorMsg (fst (handleUpload ex_upload_unreachable ex_form_state))
        = Some ''Network error: Could not upload documents.''
   \<and> activeJobs (fst (handleUpload ex_upload_unreachable ex_form_state)) = [ex_j2]"
proof -
  have h: "files ex_form_state \<noteq> []"
    by (simp add: upload_ex_defs ex_defs)
  have r: "ex_upload_rejected (build_form ex_form_state)
        = Http False (Parsed \<lparr>jobs = None, detail = Some ''File too large''\<rparr>)"
    by (simp add: upload_ex_defs)
  have n: "ex_upload_no_detail (build_form ex_form_state)
        = Http False (Parsed \<lparr>jobs = None, detail = None\<rparr>)"
    by (simp add: ex_upload_no_detail_def)
  have u: "ex_upload_unreachable (build_form ex_form_state) = NetworkError"
    by (simp add: ex_upload_unreachable_def)
  have a: "activeJobs ex_form_state = [ex_j2]"
    by (simp add: upload_ex_defs ex_defs)
  from upload_failure_message [OF h, where net = ex_upload_rejected
         and obj = "\<lparr>jobs = None, detail = Some ''File too large''\<rparr>"] r a
  have 1: "errorMsg (fst (handleUpload ex_upload_rejected ex_form_state)) = Some ''File too large''
           \<and> activeJobs (fst (handleUpload ex_upload_rejected ex_form_state)) = [ex_j2]"
    by simp
  from upload_failure_message [OF h, where net = ex_upload_no_detail
         and obj = "\<lparr>jobs = None, detail = None\<rparr>"] n
  have 2: "errorMsg (fst (handleUpload ex_upload_no_detail ex_form_state))
             = Some ''Failed to upload documents.''"
    by simp
  from upload_failure_message [OF h, where net = ex_upload_unreachable] u a
  have 3: "errorMsg (fst (handleUpload ex_upload_unreachable ex_form_state))
        = Some ''Network error: Could not upload documents.''
      \<and> activeJobs (fst (handleUpload ex_upload_unreachable ex_form_state)) = [ex_j2]"
    by simp
  from h r n u 1 2 3 show ?thesis by blast
qed

section \<open>Polls that find nothing\<close>

text \<open>
  C9. \<^verbatim>\<open>pollJobStatus\<close> returns \<^verbatim>\<open>null\<close>, having sent its one request, whenever \<^verbatim>\<open>fetch\<close>
  rejects, the response is not \<^verbatim>\<open>ok\<close> (a 404 included) or the body cannot be read. And a job
  of the active list whose id the server answers, at every request of every tick, with a
  transport error or a non-success response is still in the active list, with the same
  record, after any number of ticks; the ticks leave the error cell of the page as it was,
  so nothing is shown to the user.
\<close>

theorem poll_absorbs_failures:
  "(net (length sent) jobId = NetworkError
      \<or> (\<exists>b. net (length sent) jobId = Http False b)
      \<or> (\<exists>ok. net (length sent) jobId = Http ok Unparseable)
    \<longrightarrow> pollJobStatus net sent jobId = (None, sent @ [GetJob jobId]))
   \<and> (J \<in> set (activeJobs s)
        \<and> (\<forall>net \<in> set nets. \<forall>k. net k (job_id J) = NetworkError \<or> (\<exists>b. net k (job_id J) = Http False b))
      \<longrightarrow> J \<in> set (activeJobs (run_ticks nets s)))
   \<and> errorMsg (run_ticks nets s) = errorMsg s"
proof (intro conjI impI)
  assume "net (length sent) jobId = NetworkError
      \<or> (\<exists>b. net (length sent) jobId = Http False b)
      \<or> (\<exists>ok. net (length sent) jobId = Http ok Unparseable)"
  then show "pollJobStatus net sent jobId = (None, sent @ [GetJob jobId])"
    by (auto simp add: pollJobStatus_def fetch_job_def job_of_response_def)
next
  assume "J \<in> set (activeJobs s)
        \<and> (\<forall>net \<in> set nets. \<forall>k. net k (job_id J) = NetworkError \<or> (\<exists>b. net k (job_id J) = Http False b))"
  then show "J \<in> set (activeJobs (run_ticks nets s))"
    using run_ticks_keeps_failed by blast
next
  show "errorMsg (run_ticks nets s) = errorMsg s"
    by (rule run_ticks_errorMsg)
qed

theorem poll_absorbs_failures_witness:
  "ex_net_down (length ([] :: request list)) ''j2'' = Http False Unparseable
   \<and> pollJobStatus ex_net_down [] ''j2'' = (None, [GetJob ''j2''])
   \<and> ex_j2 \<in> set (activeJobs ex_state)
   \<and> (\<forall>k. ex_net_down k (job_id ex_j2) = Http False Unparseable)
   \<and> ex_j2 \<in> set (activeJobs (run_ticks [ex_net_down, ex_net_down] ex_state))
   \<and> activeJobs (run_ticks [ex_net_down, ex_net_down] ex_state) = [ex_j1_running, ex_j2]"
proof -
  have h1: "ex_net_down (length ([] :: request list)) ''j2'' = Http False Unparseable"
    by (simp add: ex_net_down_def)
  have h2: "ex_j2 \<in> set (activeJobs ex_state)"
    by (simp add: ex_state_def)
  have h3: "\<forall>net \<in> set [ex_net_down, ex_net_down]. \<forall>k.
         net k (job_id ex_j2) = NetworkError \<or> (\<exists>b. net k (job_id ex_j2) = Http False b)"
    by (simp add: ex_net_down_def ex_j2_def)
  note inst = poll_absorbs_failures [where net = ex_net_down and sent = "[]" and jobId = "''j2''" and J = ex_j2
                    and s = ex_state and nets = "[ex_net_down, ex_net_down]"]
  from inst h1 have a: "pollJobStatus ex_net_down [] ''j2'' = (None, [GetJob ''j2''])"
    by simp
  from inst h2 h3 have b: "ex_j2 \<in> set (activeJobs (run_ticks [ex_net_down, ex_net_down] ex_state))"
    by blast
  have c: "activeJobs (run_ticks [ex_net_down, ex_net_down] ex_state) = [ex_j1_running, ex_j2]"
    by (simp add: ex_defs eval_defs)
  have h4: "\<forall>k. ex_net_down k (job_id ex_j2) = Http False Unparseable"
    by (simp add: ex_net_down_def ex_j2_def)
  from h1 h2 h4 a b c show ?thesis by blast
qed

section \<open>Successful uploads\<close>

text \<open>
  C10. With at least one file selected and an \<^verbatim>\<open>ok\<close> response carrying the job descriptors
  \<open>js\<close>: the active list becomes the new records, one per descriptor in the order of the
  response, followed by the former active list; the completed list is unchanged. Each new
  record takes \<^verbatim>\<open>job_id\<close>, \<^verbatim>\<open>filename\<close> and \<^verbatim>\<open>status\<close> from its descriptor, whatever the
  status is, and \<^verbatim>\<open>ledger_name\<close> and \<^verbatim>\<open>financial_year\<close> from the form inputs
  \<^verbatim>\<open>ledgerName\<close> and \<^verbatim>\<open>selectedFY\<close>.
\<close>

theorem upload_prepends_descriptors:
  assumes "files s \<noteq> []"
      and "net (build_form s) = Http True (Parsed obj)"
      and "jobs obj = Some js"
  shows "activeJobs (fst (handleUpload net s)) = map (new_job (ledgerName s) (selectedFY s)) js @ activeJobs s
         \<and> completedJobs (fst (handleUpload net s)) = completedJobs s
         \<and> (\<forall>j \<in> set js.
               job_id (new_job (ledgerName s) (selectedFY s) j) = job_id j
               \<and> filename (new_job (ledgerName s) (selectedFY s) j) = filename j
               \<and> status (new_job (ledgerName s) (selectedFY s) j) = status j
               \<and> ledger_name (new_job (ledgerName s) (selectedFY s) j) = Some (ledgerName s)
               \<and> financial_year (new_job (ledgerName s) (selectedFY s) j) = Some (selectedFY s))"
  using assms by (simp add: handleUpload_def Let_def new_job_def)

theorem upload_prepends_descriptors_witness:
  "files ex_form_state \<noteq> []
   \<and> ex_upload_ok (build_form ex_form_state)
        = Http True (Parsed \<lparr>jobs = Some [ex_descriptor, ex_descriptor2], detail = None\<rparr>)
   \<and> jobs \<lparr>jobs = Some [ex_descriptor, ex_descriptor2], detail = None\<rparr> = Some [ex_descriptor, ex_descriptor2]
   \<and> status ex_descriptor = COMPLETED
   \<and> ledger_name ex_descriptor = Some ''from server''
   \<and> activeJobs (fst (handleUpload ex_upload_ok ex_form_state)) =
        [\<lparr>job_id = ''j7'', filename = ''a.pdf'', status = COMPLETED,
          ledger_name = Some '' ACME '', financial_year = Some ''2023-24'',
          result = None, error = None, created_at = None\<rparr>,
         \<lparr>job_id = ''j8'', filename = ''b.pdf'', status = PENDING,
          ledger_name = Some '' ACME '', financial_year = Some ''2023-24'',
          result = None, error = None, created_at = None\<rparr>,
         ex_j2]
   \<and> completedJobs (fst (handleUpload ex_upload_ok ex_form_state)) = [ex_j0]"
proof -
  have h1: "files ex_form_state \<noteq> []"
    by (simp add: upload_ex_defs ex_defs)
  have h2: "ex_upload_ok (build_form ex_form_state)
        = Http True (Parsed \<lparr>jobs = Some [ex_descriptor, ex_descriptor2], detail = None\<rparr>)"
    by (simp add: upload_ex_defs)
  have h3: "jobs \<lparr>jobs = Some [ex_descriptor, ex_descriptor2], detail = None\<rparr> = Some [ex_descriptor, ex_descriptor2]"
    by simp
  have d: "status ex_descriptor = COMPLETED \<and> ledger_name ex_descriptor = Some ''from server''"
    by (simp add: upload_ex_defs)
  from upload_prepends_descriptors [where net = ex_upload_ok and s = ex_form_state, OF h1 h2 h3]
  have "activeJobs (fst (handleUpload ex_upload_ok ex_form_state))
          = map (new_job (ledgerName ex_form_state) (selectedFY ex_form_state)) [ex_descriptor, ex_descriptor2]
            @ activeJobs ex_form_state
        \<and> completedJobs (fst (handleUpload ex_upload_ok ex_form_state)) = completedJobs ex_form_state"
    by blast
  then have "activeJobs (fst (handleUpload ex_upload_ok ex_form_state)) =
        [\<lparr>job_id = ''j7'', filename = ''a.pdf'', status = COMPLETED,
          ledger_name = Some '' ACME '', financial_year = Some ''2023-24'',
          result = None, error = None, created_at = None\<rparr>,
         \<lparr>job_id = ''j8'', filename = ''b.pdf'', status = PENDING,
          ledger_name = Some '' ACME '', financial_year = Some ''2023-24'',
          result = None, error = None, created_at = None\<rparr>,
         ex_j2]
      \<and> completedJobs (fst (handleUpload ex_upload_ok ex_form_state)) = [ex_j0]"
    by (simp add: new_job_def upload_ex_defs initial_state_def)
  with h1 h2 h3 d show ?thesis by blast
qed

end
